theory Spec2Isabelle
  imports Main "HOL-Library.Sublist"
begin

section \<open>Shared value types\<close>

text \<open>
  JavaScript numbers that the transport handles (durations, timestamps, serials, HTTP
  status codes) are modelled as unbounded integers; \<open>null\<close> and \<open>undefined\<close> are the
  value \<open>None\<close> of an option type. A number is falsy exactly when it is \<open>0\<close>.
\<close>

text \<open>\<^verbatim>\<open>new ErrorInfo(message, code, statusCode)\<close> of \<^verbatim>\<open>../types/errorinfo\<close>.\<close>

datatype ErrorInfo =
  ErrorInfo (message: string) (code: "int option") (statusCode: "int option")

text \<open>
  Modelled from the spec: the enum \<^verbatim>\<open>ProtocolMessage.Action\<close> lives in
  \<^verbatim>\<open>../types/protocolmessage\<close>, which is not among the sources. The glossary names
  HEARTBEAT, CONNECTED, CLOSED, DISCONNECTED, ACK, NACK, SYNC, AUTH and ERROR, and
  \<^verbatim>\<open>transport.ts\<close> names CLOSE and DISCONNECT for the two control messages it sends.
  Every other tag is \<open>OtherAction n\<close>.
\<close>

datatype Action =
  HEARTBEAT | ACK | NACK | CONNECTED | DISCONNECT | DISCONNECTED | CLOSE | CLOSED
  | ERROR | SYNC | AUTH | OtherAction nat

record ConnectionDetails =
  cd_maxIdleInterval :: "int option"

record ProtocolMessage =
  action :: Action
  msg_id :: "string option"
  channel :: "string option"
  connectionId :: "string option"
  msgSerial :: "int option"
  msg_count :: "int option"
  msg_error :: "ErrorInfo option"
  connectionDetails :: "ConnectionDetails option"

text \<open>\<^verbatim>\<open>ProtocolMessage.fromValues({ action: a })\<close>: a message with only its action.\<close>

definition fromValues_action :: "Action \<Rightarrow> ProtocolMessage" where
  "fromValues_action a =
     \<lparr>action = a, msg_id = None, channel = None, connectionId = None, msgSerial = None,
      msg_count = None, msg_error = None, connectionDetails = None\<rparr>"

definition closeMessage :: ProtocolMessage where
  "closeMessage = fromValues_action CLOSE"

definition disconnectMessage :: ProtocolMessage where
  "disconnectMessage = fromValues_action DISCONNECT"

text \<open>
  The constants of \<^verbatim>\<open>./connectionerrors\<close> are not among the sources; they are parameters
  of the model. \<^verbatim>\<open>transport.ts\<close> gives each of the three to \<^verbatim>\<open>finish\<close> as the error of
  the outcome, two of them as the fallback of \<^verbatim>\<open>err || ConnectionErrors.x\<close> (the generic
  disconnected and failed errors), so each is an error value.
\<close>

record ConnectionErrors =
  closed :: ErrorInfo
  disconnected :: ErrorInfo
  failed :: ErrorInfo

section \<open>The transport and what it does to its surroundings\<close>

text \<open>
  Everything the transport does to a collaborator is recorded, in order, in \<open>trace\<close>:
  events given to \<^verbatim>\<open>emit\<close> with their arguments, messages given to the abstract
  \<^verbatim>\<open>send\<close>, messages handed to \<^verbatim>\<open>connectionManager.onChannelMessage\<close>, calls of
  \<^verbatim>\<open>auth.authorize\<close>, and \<^verbatim>\<open>off()\<close>. Log output is left out.
\<close>

datatype arg =
  AErr "ErrorInfo option" | AStr "string option" | ANum "int option"
  | ADetails "ConnectionDetails option" | AMsg ProtocolMessage

datatype effect =
  RegisterProposedTransport
  | Emit string "arg list"
  | Send ProtocolMessage
  | OnChannelMessage ProtocolMessage
  | Authorize
  | Off

text \<open>
  The fields of \<^verbatim>\<open>class Transport\<close>, and the part of the environment its code reads
  and writes: \<open>realtimeRequestTimeout\<close> is \<^verbatim>\<open>this.timeouts.realtimeRequestTimeout\<close>,
  \<open>cm_lastActivity\<close> is \<^verbatim>\<open>connectionManager.lastActivity\<close>, \<open>clock\<close> is what
  \<^verbatim>\<open>Utils.now()\<close> returns, \<open>pending\<close> lists the timers scheduled with
  \<^verbatim>\<open>setTimeout\<close> that have neither fired nor been cleared (handle and delay), and
  \<open>nextTimer\<close> is the handle the next \<^verbatim>\<open>setTimeout\<close> returns, so it counts the timers
  ever armed. A timer handle is always truthy.
\<close>

record Transport =
  isConnected :: bool
  isFinished :: bool
  isDisposed :: bool
  maxIdleInterval :: "int option"
  idleTimer :: "nat option"
  lastActivity :: "int option"
  realtimeRequestTimeout :: int
  cm_lastActivity :: "int option"
  clock :: int
  pending :: "(nat \<times> int) list"
  nextTimer :: nat
  trace :: "effect list"

text \<open>An exception thrown by the transport's own code.\<close>

datatype fault = Fault string

text \<open>
  The constructor, for a realtime request timeout and a current time. The collaborators
  (\<^verbatim>\<open>connectionManager\<close>, \<^verbatim>\<open>auth\<close>) appear through the effects on them; \<^verbatim>\<open>params\<close> and
  \<^verbatim>\<open>format\<close>, which no operation below reads, are left out.
\<close>

definition Transport_new :: "int \<Rightarrow> int \<Rightarrow> Transport" where
  "Transport_new rrt now =
     \<lparr>isConnected = False, isFinished = False, isDisposed = False,
      maxIdleInterval = None, idleTimer = None, lastActivity = None,
      realtimeRequestTimeout = rrt, cm_lastActivity = None, clock = now,
      pending = [], nextTimer = 1, trace = [RegisterProposedTransport]\<rparr>"

definition emit :: "string \<Rightarrow> arg list \<Rightarrow> Transport \<Rightarrow> Transport" where
  "emit event args t = t\<lparr>trace := trace t @ [Emit event args]\<rparr>"

definition send :: "ProtocolMessage \<Rightarrow> Transport \<Rightarrow> Transport" where
  "send m t = t\<lparr>trace := trace t @ [Send m]\<rparr>"

definition onChannelMessage :: "ProtocolMessage \<Rightarrow> Transport \<Rightarrow> Transport" where
  "onChannelMessage m t = t\<lparr>trace := trace t @ [OnChannelMessage m]\<rparr>"

definition authorize :: "Transport \<Rightarrow> Transport" where
  "authorize t = t\<lparr>trace := trace t @ [Authorize]\<rparr>"

definition off :: "Transport \<Rightarrow> Transport" where
  "off t = t\<lparr>trace := trace t @ [Off]\<rparr>"

text \<open>\<^verbatim>\<open>clearTimeout(h ?? undefined)\<close>: nothing happens for \<open>null\<close>.\<close>

definition clearTimeout :: "nat option \<Rightarrow> Transport \<Rightarrow> Transport" where
  "clearTimeout h t =
     (case h of
        None \<Rightarrow> t
      | Some k \<Rightarrow> t\<lparr>pending := filter (\<lambda>p. fst p \<noteq> k) (pending t)\<rparr>)"

text \<open>\<^verbatim>\<open>connect(): void {}\<close>\<close>

definition connect :: "Transport \<Rightarrow> Transport" where
  "connect t = t"

definition requestClose :: "Transport \<Rightarrow> Transport" where
  "requestClose t = send closeMessage t"

definition requestDisconnect :: "Transport \<Rightarrow> Transport" where
  "requestDisconnect t = send disconnectMessage t"

definition dispose :: "Transport \<Rightarrow> Transport" where
  "dispose t = off (t\<lparr>isDisposed := True\<rparr>)"

definition finish :: "string \<Rightarrow> ErrorInfo option \<Rightarrow> Transport \<Rightarrow> Transport" where
  "finish event err t =
     (if isFinished t then t
      else
        let t1 = t\<lparr>isFinished := True, isConnected := False, maxIdleInterval := None\<rparr>;
            t2 = clearTimeout (idleTimer t1) t1;
            t3 = t2\<lparr>idleTimer := None\<rparr>;
            t4 = emit event [AErr err] t3
        in dispose t4)"

definition close :: "ConnectionErrors \<Rightarrow> Transport \<Rightarrow> Transport" where
  "close ce t =
     finish ''closed'' (Some (closed ce)) (if isConnected t then requestClose t else t)"

text \<open>\<^verbatim>\<open>err || ConnectionErrors.x\<close>: an error object is truthy.\<close>

definition or_default :: "ErrorInfo option \<Rightarrow> ErrorInfo \<Rightarrow> ErrorInfo option" where
  "or_default err d = (case err of None \<Rightarrow> Some d | Some e \<Rightarrow> Some e)"

definition disconnect :: "ConnectionErrors \<Rightarrow> ErrorInfo option \<Rightarrow> Transport \<Rightarrow> Transport" where
  "disconnect ce err t =
     finish ''disconnected'' (or_default err (disconnected ce))
       (if isConnected t then requestDisconnect t else t)"

definition fail :: "ConnectionErrors \<Rightarrow> ErrorInfo option \<Rightarrow> Transport \<Rightarrow> Transport" where
  "fail ce err t =
     finish ''failed'' (or_default err (failed ce))
       (if isConnected t then requestDisconnect t else t)"

text \<open>\<^verbatim>\<open>ping(id)\<close>: the id is attached when it is a non-empty string.\<close>

definition ping :: "string \<Rightarrow> Transport \<Rightarrow> Transport" where
  "ping i t =
     send ((fromValues_action HEARTBEAT)\<lparr>msg_id := (if i \<noteq> [] then Some i else None)\<rparr>) t"

subsection \<open>The idle monitor\<close>

definition setIdleTimer :: "int \<Rightarrow> Transport \<Rightarrow> Transport" where
  "setIdleTimer timeout t =
     (if idleTimer t = None
      then t\<lparr>idleTimer := Some (nextTimer t),
             pending := pending t @ [(nextTimer t, timeout)],
             nextTimer := Suc (nextTimer t)\<rparr>
      else t)"

definition onActivity :: "Transport \<Rightarrow> Transport" where
  "onActivity t =
     (case maxIdleInterval t of
        None \<Rightarrow> t
      | Some d \<Rightarrow>
          if d = 0 then t
          else setIdleTimer (d + 100)
                 (t\<lparr>lastActivity := Some (clock t), cm_lastActivity := Some (clock t)\<rparr>))"

text \<open>Decimal rendering of a number inside a string concatenation.\<close>

fun show_nat :: "nat \<Rightarrow> string" where
  "show_nat n =
     (if n < 10 then [''0123456789'' ! n]
      else show_nat (n div 10) @ [''0123456789'' ! (n mod 10)])"

declare show_nat.simps [simp del]

definition show_int :: "int \<Rightarrow> string" where
  "show_int i = (if i < 0 then CHR ''-'' # show_nat (nat (- i)) else show_nat (nat i))"

definition idle_msg :: "int \<Rightarrow> string" where
  "idle_msg sinceLast =
     ''No activity seen from realtime in '' @ show_int sinceLast
       @ ''ms; assuming connection has dropped''"

definition onIdleTimerExpire :: "ConnectionErrors \<Rightarrow> Transport \<Rightarrow> fault option \<times> Transport" where
  "onIdleTimerExpire ce t =
     (case (lastActivity t, maxIdleInterval t) of
        (Some la, Some mi) \<Rightarrow>
          if la = 0 \<or> mi = 0
          then (Some (Fault ''Transport.onIdleTimerExpire(): lastActivity/maxIdleInterval not set''), t)
          else
            let t1 = t\<lparr>idleTimer := None\<rparr>;
                sinceLast = clock t1 - la;
                timeRemaining = mi - sinceLast
            in if timeRemaining \<le> 0
               then (None, disconnect ce (Some (ErrorInfo (idle_msg sinceLast) (Some 80003) (Some 408))) t1)
               else (None, setIdleTimer (timeRemaining + 100) t1)
      | _ \<Rightarrow> (Some (Fault ''Transport.onIdleTimerExpire(): lastActivity/maxIdleInterval not set''), t))"

subsection \<open>Dispatch of inbound protocol messages\<close>

definition onConnect :: "ProtocolMessage \<Rightarrow> Transport \<Rightarrow> fault option \<times> Transport" where
  "onConnect m t =
     (let t1 = t\<lparr>isConnected := True\<rparr> in
      case connectionDetails m of
        None \<Rightarrow>
          (Some (Fault ''Transport.onConnect(): Connect message recieved without connectionDetails''), t1)
      | Some cd \<Rightarrow>
          (case cd_maxIdleInterval cd of
             None \<Rightarrow> (None, t1)
           | Some maxPromisedIdle \<Rightarrow>
               if maxPromisedIdle = 0 then (None, t1)
               else (None, onActivity
                       (t1\<lparr>maxIdleInterval := Some (maxPromisedIdle + realtimeRequestTimeout t1)\<rparr>))))"

definition onDisconnect :: "ProtocolMessage \<Rightarrow> Transport \<Rightarrow> Transport" where
  "onDisconnect m t = finish ''disconnected'' (msg_error m) t"

definition onFatalError :: "ProtocolMessage \<Rightarrow> Transport \<Rightarrow> Transport" where
  "onFatalError m t = finish ''failed'' (msg_error m) t"

definition onClose :: "ProtocolMessage \<Rightarrow> Transport \<Rightarrow> Transport" where
  "onClose m t = finish ''closed'' (msg_error m) t"

definition onProtocolMessage :: "ProtocolMessage \<Rightarrow> Transport \<Rightarrow> fault option \<times> Transport" where
  "onProtocolMessage m t =
     (let t1 = onActivity t in
      case action m of
        HEARTBEAT \<Rightarrow> (None, emit ''heartbeat'' [AStr (msg_id m)] t1)
      | CONNECTED \<Rightarrow>
          (case onConnect m t1 of
             (Some f, t2) \<Rightarrow> (Some f, t2)
           | (None, t2) \<Rightarrow>
               (None, emit ''connected''
                        [AErr (msg_error m), AStr (connectionId m),
                         ADetails (connectionDetails m), AMsg m] t2))
      | CLOSED \<Rightarrow> (None, onClose m t1)
      | DISCONNECTED \<Rightarrow> (None, onDisconnect m t1)
      | ACK \<Rightarrow> (None, emit ''ack'' [ANum (msgSerial m), ANum (msg_count m)] t1)
      | NACK \<Rightarrow>
          (None, emit ''nack'' [ANum (msgSerial m), ANum (msg_count m), AErr (msg_error m)] t1)
      | SYNC \<Rightarrow>
          (if connectionId m \<noteq> None
           then (None, emit ''sync'' [AStr (connectionId m), AMsg m] t1)
           else (None, onChannelMessage m t1))
      | AUTH \<Rightarrow> (None, authorize t1)
      | ERROR \<Rightarrow>
          (if channel m = None
           then (None, onFatalError m t1)
           else (None, onChannelMessage m t1))
      | _ \<Rightarrow> (None, onChannelMessage m t1))"

subsection \<open>Sequences of operations\<close>

text \<open>
  What can happen to a transport: a call of one of its public operations, the arrival of
  a protocol message, the runtime firing a pending timer (whose callback is
  \<^verbatim>\<open>onIdleTimerExpire\<close>), and time passing. A thrown fault leaves the transport as it
  was when the exception was raised.
\<close>

datatype op =
  Connect | Close | Disconnect "ErrorInfo option" | Fail "ErrorInfo option"
  | Finish string "ErrorInfo option" | Ping string | Dispose
  | OnProtocolMessage ProtocolMessage | TimerFires | Advance nat

definition fireTimer :: "ConnectionErrors \<Rightarrow> Transport \<Rightarrow> fault option \<times> Transport" where
  "fireTimer ce t =
     (case pending t of
        [] \<Rightarrow> (None, t)
      | p # ps \<Rightarrow> onIdleTimerExpire ce (t\<lparr>pending := ps\<rparr>))"

fun exec :: "ConnectionErrors \<Rightarrow> op \<Rightarrow> Transport \<Rightarrow> Transport" where
  "exec ce Connect t = connect t"
| "exec ce Close t = close ce t"
| "exec ce (Disconnect err) t = disconnect ce err t"
| "exec ce (Fail err) t = fail ce err t"
| "exec ce (Finish event err) t = finish event err t"
| "exec ce (Ping i) t = ping i t"
| "exec ce Dispose t = dispose t"
| "exec ce (OnProtocolMessage m) t = snd (onProtocolMessage m t)"
| "exec ce TimerFires t = snd (fireTimer ce t)"
| "exec ce (Advance n) t = t\<lparr>clock := clock t + int n\<rparr>"

fun run :: "ConnectionErrors \<Rightarrow> op list \<Rightarrow> Transport \<Rightarrow> Transport" where
  "run ce [] t = t"
| "run ce (x # xs) t = run ce xs (exec ce x t)"

text \<open>
  The operations that ask for a terminal transition: \<^verbatim>\<open>close()\<close>, \<^verbatim>\<open>disconnect()\<close>,
  \<^verbatim>\<open>fail()\<close>, and a peer's CLOSED, DISCONNECTED or ERROR-without-channel message.
\<close>

fun terminal_op :: "op \<Rightarrow> bool" where
  "terminal_op Close = True"
| "terminal_op (Disconnect err) = True"
| "terminal_op (Fail err) = True"
| "terminal_op (OnProtocolMessage m) =
     (action m = CLOSED \<or> action m = DISCONNECTED \<or> (action m = ERROR \<and> channel m = None))"
| "terminal_op _ = False"

text \<open>The effects added to the trace between an earlier state and a later one.\<close>

definition new_effects :: "Transport \<Rightarrow> Transport \<Rightarrow> effect list" where
  "new_effects t t' = drop (length (trace t)) (trace t')"

fun is_Emit :: "effect \<Rightarrow> bool" where
  "is_Emit (Emit event args) = True"
| "is_Emit _ = False"

text \<open>
  At most one timer is pending, and the transport holds its handle.
\<close>

definition timer_inv :: "Transport \<Rightarrow> bool" where
  "timer_inv t =
     (case pending t of [] \<Rightarrow> True | [p] \<Rightarrow> idleTimer t = Some (fst p) | _ \<Rightarrow> False)"

section \<open>The fallback request executor\<close>

text \<open>
  A response body after decoding: \<^verbatim>\<open>res.arrayBuffer()\<close> gives bytes, \<^verbatim>\<open>res.json()\<close> a
  JSON value, \<^verbatim>\<open>res.text()\<close> a string.
\<close>

datatype json =
  JNull | JBool bool | JNum int | JStr string | JArr "json list" | JObj "(string \<times> json) list"

datatype body = ArrayBuffer "nat list" | Json json | Text string

text \<open>JavaScript truthiness of a JSON value.\<close>

fun truthy :: "json \<Rightarrow> bool" where
  "truthy JNull = False"
| "truthy (JBool b) = b"
| "truthy (JNum n) = (n \<noteq> 0)"
| "truthy (JStr s) = (s \<noteq> [])"
| "truthy (JArr xs) = True"
| "truthy (JObj kvs) = True"

text \<open>
  The property read \<^verbatim>\<open>responseBody.error\<close>: it throws a TypeError on \<open>null\<close>, finds the
  member of a JSON object (the last one when a key is repeated, as \<^verbatim>\<open>JSON.parse\<close>
  keeps it), and is \<open>undefined\<close> on a string, a number, an array or an ArrayBuffer.
\<close>

fun get_error :: "body \<Rightarrow> fault + json option" where
  "get_error (Json JNull) = Inl (Fault ''TypeError'')"
| "get_error (Json (JObj kvs)) = Inr (map_of (rev kvs) ''error'')"
| "get_error b = Inr None"

text \<open>
  \<^verbatim>\<open>s.indexOf(p)\<close>: the first position at which \<open>p\<close> occurs in \<open>s\<close>, or \<open>-1\<close>.
\<close>

fun indexOf :: "string \<Rightarrow> string \<Rightarrow> int" where
  "indexOf [] p = (if p = [] then 0 else - 1)"
| "indexOf (c # cs) p =
     (if prefix p (c # cs) then 0
      else let i = indexOf cs p in if i < 0 then - 1 else i + 1)"

text \<open>
  A \<^verbatim>\<open>Headers\<close> object looks names up without regard to case; it is a map from the
  lower-case name to the value, and \<open>headers_get\<close> lowers the name it is asked for.
\<close>

definition lower :: "char \<Rightarrow> char" where
  "lower c =
     (case map_of (zip ''ABCDEFGHIJKLMNOPQRSTUVWXYZ'' ''abcdefghijklmnopqrstuvwxyz'') c of
        Some d \<Rightarrow> d
      | None \<Rightarrow> c)"

definition headers_get :: "(string \<Rightarrow> string option) \<Rightarrow> string \<Rightarrow> string option" where
  "headers_get h name = h (map lower name)"

definition headers_has :: "(string \<times> string) list \<Rightarrow> string \<Rightarrow> bool" where
  "headers_has hs name = list_ex (\<lambda>kv. map lower (fst kv) = map lower name) hs"

text \<open>\<^verbatim>\<open>method.toUpperCase()\<close> on the ASCII names of the HTTP methods.\<close>

definition upper :: "char \<Rightarrow> char" where
  "upper c =
     (case map_of (zip ''abcdefghijklmnopqrstuvwxyz'' ''ABCDEFGHIJKLMNOPQRSTUVWXYZ'') c of
        Some d \<Rightarrow> d
      | None \<Rightarrow> c)"

definition toUpperCase :: "string \<Rightarrow> string" where
  "toUpperCase s = map upper s"

text \<open>
  A response as the platform's \<^verbatim>\<open>fetch\<close> delivers it. \<^verbatim>\<open>res.ok\<close> is the platform's
  test that the status is in the range 200 to 299.
\<close>

record Response =
  status :: int
  res_headers :: "string \<Rightarrow> string option"

definition ok :: "Response \<Rightarrow> bool" where
  "ok res = (200 \<le> status res \<and> status res \<le> 299)"

text \<open>
  What lies outside the sources and is taken as a parameter: \<^verbatim>\<open>Platform.Config.inspect\<close>,
  \<^verbatim>\<open>ErrorInfo.fromValues\<close>, \<^verbatim>\<open>Defaults.TIMEOUTS.httpRequestTimeout\<close> and the rendering of
  \<^verbatim>\<open>URLSearchParams\<close>.
\<close>

record Env =
  inspect :: "body \<Rightarrow> string"
  fromValues :: "json \<Rightarrow> ErrorInfo"
  defaultHttpRequestTimeout :: int
  searchParams :: "(string \<times> string) list \<Rightarrow> string"

text \<open>
  The second argument of \<^verbatim>\<open>fetch\<close>. Its optional member \<^verbatim>\<open>signal\<close> connects a request
  to an \<^verbatim>\<open>AbortController\<close>; \<open>signal\<close> says whether the member is there.
\<close>

record RequestInit =
  init_method :: string
  init_headers :: "(string \<times> string) list"
  init_body :: "string option"
  credentials :: string
  signal :: bool

text \<open>A reason with which the \<^verbatim>\<open>fetch\<close> promise rejects.\<close>

datatype rejection = AbortError | NetworkError

datatype cb_error = ErrInfo ErrorInfo | Rejected rejection

text \<open>One invocation of \<^verbatim>\<open>callback(err, body, headers, packed, statusCode)\<close>.\<close>

datatype call =
  Call (cb_err: "cb_error option") (cb_body: "body option")
       (cb_headers: "(string \<Rightarrow> string option) option")
       (cb_packed: "bool option") (cb_status: "int option")

datatype decoder = ArrayBufferDecoder | JsonDecoder | TextDecoder

datatype phase = InFlight | Decoding Response decoder | Settled

text \<open>
  One call of \<^verbatim>\<open>fetchRequest\<close> in progress: the request given to \<^verbatim>\<open>fetch\<close>, whether the
  timeout is still armed, how often \<^verbatim>\<open>controller.abort()\<close> has run, how far the request
  has come, and the invocations of the callback so far.
\<close>

record FetchCall =
  url :: string
  init :: RequestInit
  timeoutDelay :: int
  timeoutArmed :: bool
  abortCalls :: nat
  phase :: phase
  calls :: "call list"

definition fetchRequest ::
  "Env \<Rightarrow> string option \<Rightarrow> int option \<Rightarrow> string \<Rightarrow> (string \<times> string) list option
     \<Rightarrow> (string \<times> string) list option \<Rightarrow> string option \<Rightarrow> FetchCall" where
  "fetchRequest env method rest uri headers params reqBody =
     (let fetchHeaders = (case headers of None \<Rightarrow> [] | Some hs \<Rightarrow> hs);
          m = (case method of
                 Some s \<Rightarrow> if s \<noteq> [] then toUpperCase s
                           else if reqBody = None then ''GET'' else ''POST''
               | None \<Rightarrow> if reqBody = None then ''GET'' else ''POST'')
      in \<lparr>url = uri @ ''?'' @ searchParams env (case params of None \<Rightarrow> [] | Some ps \<Rightarrow> ps),
          init = \<lparr>init_method = m, init_headers = fetchHeaders, init_body = reqBody,
                  credentials = (if headers_has fetchHeaders ''authorization''
                                 then ''include'' else ''same-origin''),
                  signal = False\<rparr>,
          timeoutDelay = (case rest of Some d \<Rightarrow> d | None \<Rightarrow> defaultHttpRequestTimeout env),
          timeoutArmed = True, abortCalls = 0, phase = InFlight, calls = []\<rparr>)"

definition callback :: "call \<Rightarrow> FetchCall \<Rightarrow> FetchCall" where
  "callback c s = s\<lparr>calls := calls s @ [c]\<rparr>"

text \<open>\<^verbatim>\<open>controller.abort()\<close>: the controller's signal is marked aborted.\<close>

definition controller_abort :: "FetchCall \<Rightarrow> FetchCall" where
  "controller_abort s = s\<lparr>abortCalls := Suc (abortCalls s)\<rparr>"

definition isAblyError :: "(string \<Rightarrow> string option) \<Rightarrow> bool" where
  "isAblyError h =
     (case headers_get h ''x-ably-errorcode'' of None \<Rightarrow> False | Some v \<Rightarrow> v \<noteq> [])"

definition getAblyError ::
  "Env \<Rightarrow> body \<Rightarrow> (string \<Rightarrow> string option) \<Rightarrow> fault + ErrorInfo option" where
  "getAblyError env responseBody h =
     (if isAblyError h
      then (case get_error responseBody of
              Inl f \<Rightarrow> Inl f
            | Inr None \<Rightarrow> Inr None
            | Inr (Some v) \<Rightarrow> if truthy v then Inr (Some (fromValues env v)) else Inr None)
      else Inr None)"

definition choose_decoder :: "string option \<Rightarrow> decoder" where
  "choose_decoder contentType =
     (case contentType of
        None \<Rightarrow> TextDecoder
      | Some ct \<Rightarrow>
          if ct \<noteq> [] \<and> indexOf ct ''application/x-msgpack'' > - 1 then ArrayBufferDecoder
          else if ct \<noteq> [] \<and> indexOf ct ''application/json'' > - 1 then JsonDecoder
          else TextDecoder)"

definition packed_flag :: "string option \<Rightarrow> bool" where
  "packed_flag contentType =
     (case contentType of
        None \<Rightarrow> False
      | Some ct \<Rightarrow> ct \<noteq> [] \<and> indexOf ct ''application/x-msgpack'' = - 1)"

text \<open>
  The packed flag in the words of the specification: a content type was declared (the
  header is there and not empty) and it is not the binary-packed type.
\<close>

definition packed_spec :: "string option \<Rightarrow> bool" where
  "packed_spec contentType =
     (case contentType of
        None \<Rightarrow> False
      | Some ct \<Rightarrow> ct \<noteq> [] \<and> \<not> sublist ''application/x-msgpack'' ct)"

definition generic_error :: "Env \<Rightarrow> Response \<Rightarrow> body \<Rightarrow> ErrorInfo" where
  "generic_error env res b =
     ErrorInfo (''Error response received from server: '' @ show_int (status res)
                  @ '' body was: '' @ inspect env b)
               None (Some (status res))"

text \<open>
  The handler given to \<^verbatim>\<open>prom.then\<close>. An exception raised inside it rejects a promise
  nobody listens to: the call is over and the callback has not run.
\<close>

definition onBody :: "Env \<Rightarrow> Response \<Rightarrow> body \<Rightarrow> FetchCall \<Rightarrow> FetchCall" where
  "onBody env res b s =
     (let packed = packed_flag (headers_get (res_headers res) ''Content-Type'');
          s1 = s\<lparr>phase := Settled\<rparr>
      in if \<not> ok res
         then (case getAblyError env b (res_headers res) of
                 Inl f \<Rightarrow> s1
               | Inr eo \<Rightarrow>
                   let err = (case eo of Some e \<Rightarrow> e | None \<Rightarrow> generic_error env res b)
                   in callback (Call (Some (ErrInfo err)) (Some b) (Some (res_headers res))
                                  (Some packed) (Some (status res))) s1)
         else callback (Call None (Some b) (Some (res_headers res))
                          (Some packed) (Some (status res))) s1)"

text \<open>Which decoder produces which kind of body.\<close>

fun decodes :: "decoder \<Rightarrow> body \<Rightarrow> bool" where
  "decodes ArrayBufferDecoder (ArrayBuffer bs) = True"
| "decodes JsonDecoder (Json j) = True"
| "decodes TextDecoder (Text s) = True"
| "decodes d b = False"

text \<open>
  What the runtime can do to a call in progress. The timeout fires only while it is
  armed. The \<^verbatim>\<open>fetch\<close> promise settles once: it resolves when the response's headers
  have arrived, or rejects; the platform rejects it with an \<^verbatim>\<open>AbortError\<close> only when the
  request was given a signal and that signal's controller has aborted. The decoding
  promise then resolves with a body of the decoder's kind, or rejects.
\<close>

datatype event =
  TimeoutFires | ResponseArrives Response | BodyDecoded body | BodyDecodeFails
  | FetchRejects rejection

fun step :: "Env \<Rightarrow> event \<Rightarrow> FetchCall \<Rightarrow> FetchCall" where
  "step env TimeoutFires s =
     (if timeoutArmed s
      then callback (Call (Some (ErrInfo (ErrorInfo ''Request timed out'' None (Some 408))))
                       None None None None)
             (controller_abort (s\<lparr>timeoutArmed := False\<rparr>))
      else s)"
| "step env (ResponseArrives res) s =
     (if phase s = InFlight
      then s\<lparr>timeoutArmed := False,
             phase := Decoding res (choose_decoder (headers_get (res_headers res) ''Content-Type''))\<rparr>
      else s)"
| "step env (BodyDecoded b) s =
     (case phase s of
        Decoding res d \<Rightarrow> if decodes d b then onBody env res b s else s
      | _ \<Rightarrow> s)"
| "step env BodyDecodeFails s =
     (case phase s of
        Decoding res d \<Rightarrow> s\<lparr>phase := Settled\<rparr>
      | _ \<Rightarrow> s)"
| "step env (FetchRejects r) s =
     (if phase s = InFlight \<and> (if r = AbortError then signal (init s) \<and> 0 < abortCalls s else True)
      then callback (Call (Some (Rejected r)) None None None None)
             (s\<lparr>timeoutArmed := False, phase := Settled\<rparr>)
      else s)"

fun steps :: "Env \<Rightarrow> event list \<Rightarrow> FetchCall \<Rightarrow> FetchCall" where
  "steps env [] s = s"
| "steps env (e # es) s = steps env es (step env e s)"

section \<open>Concrete values used in the examples\<close>

definition ce0 :: ConnectionErrors where
  "ce0 = \<lparr>closed = ErrorInfo ''Connection closed'' (Some 80017) (Some 400),
          disconnected = ErrorInfo ''Connection to server temporarily unavailable'' (Some 80003) (Some 400),
          failed = ErrorInfo ''Connection failed or disconnected by server'' (Some 80000) (Some 400)\<rparr>"

definition connected_msg :: "int \<Rightarrow> ProtocolMessage" where
  "connected_msg d =
     (fromValues_action CONNECTED)\<lparr>connectionDetails := Some \<lparr>cd_maxIdleInterval = Some d\<rparr>\<rparr>"

definition err0 :: ErrorInfo where
  "err0 = ErrorInfo ''Token expired'' (Some 40142) (Some 401)"

definition env0 :: Env where
  "env0 = \<lparr>inspect = (\<lambda>b. case b of Text s \<Rightarrow> s | _ \<Rightarrow> ''[object]''),
           fromValues = (\<lambda>j. case j of
                JObj kvs \<Rightarrow>
                  ErrorInfo (case map_of kvs ''message'' of Some (JStr s) \<Rightarrow> s | _ \<Rightarrow> [])
                            (case map_of kvs ''code'' of Some (JNum n) \<Rightarrow> Some n | _ \<Rightarrow> None)
                            (case map_of kvs ''statusCode'' of Some (JNum n) \<Rightarrow> Some n | _ \<Rightarrow> None)
              | _ \<Rightarrow> ErrorInfo [] None None),
           defaultHttpRequestTimeout = 10000,
           searchParams = (\<lambda>ps. [])\<rparr>"

definition call0 :: FetchCall where
  "call0 = fetchRequest env0 None None ''https://rest.ably.io/time'' None None None"

definition hdrs :: "(string \<times> string) list \<Rightarrow> string \<Rightarrow> string option" where
  "hdrs kvs = map_of kvs"

text \<open>A transport that has processed CONNECTED with a promised idle interval of 15000.\<close>

definition t_live :: Transport where
  "t_live = snd (onProtocolMessage (connected_msg 15000) (Transport_new 10000 1000))"

text \<open>
  A transport that was closed, then processed a CONNECTED message, and whose idle timer
  then expired after 30000 without activity.
\<close>

definition t_refinished :: Transport where
  "t_refinished =
     run ce0 [Close, OnProtocolMessage (connected_msg 15000), Advance 30000, TimerFires]
       (Transport_new 10000 1000)"

definition ops_after :: "op list" where
  "ops_after =
     [Close, Disconnect None, Fail (Some err0), OnProtocolMessage (fromValues_action CLOSED),
      OnProtocolMessage (fromValues_action DISCONNECTED),
      OnProtocolMessage ((fromValues_action ERROR)\<lparr>msg_error := Some err0\<rparr>)]"

definition fatal_msg :: ProtocolMessage where
  "fatal_msg = (fromValues_action ERROR)\<lparr>msg_error := Some err0\<rparr>"

definition channel_err_msg :: ProtocolMessage where
  "channel_err_msg = (fromValues_action ERROR)\<lparr>msg_error := Some err0, channel := Some ''chat''\<rparr>"

definition connected_no_details :: ProtocolMessage where
  "connected_no_details = fromValues_action CONNECTED"

definition connected_no_idle :: ProtocolMessage where
  "connected_no_idle = (fromValues_action CONNECTED)\<lparr>connectionDetails := Some \<lparr>cd_maxIdleInterval = None\<rparr>\<rparr>"

definition res_ok_json :: Response where
  "res_ok_json = \<lparr>status = 200, res_headers = hdrs [(''content-type'', ''application/json'')]\<rparr>"





section \<open>Properties of the transport\<close>

lemmas transport_defs =
  Transport_new_def emit_def send_def onChannelMessage_def authorize_def off_def clearTimeout_def
  connect_def requestClose_def requestDisconnect_def dispose_def finish_def close_def or_default_def
  disconnect_def fail_def ping_def setIdleTimer_def onActivity_def onIdleTimerExpire_def
  onConnect_def onDisconnect_def onFatalError_def onClose_def onProtocolMessage_def fireTimer_def
  new_effects_def fromValues_action_def closeMessage_def disconnectMessage_def connected_msg_def
  ce0_def Let_def

lemma t_live_eq:
  "t_live =
     \<lparr>isConnected = True, isFinished = False, isDisposed = False,
      maxIdleInterval = Some 25000, idleTimer = Some 1, lastActivity = Some 1000,
      realtimeRequestTimeout = 10000, cm_lastActivity = Some 1000, clock = 1000,
      pending = [(1, 25100)], nextTimer = 2,
      trace = [RegisterProposedTransport,
               Emit ''connected'' [AErr None, AStr None,
                  ADetails (Some \<lparr>cd_maxIdleInterval = Some 15000\<rparr>), AMsg (connected_msg 15000)]]\<rparr>"
  by (simp add: t_live_def onProtocolMessage_def connected_msg_def fromValues_action_def
        Transport_new_def onActivity_def onConnect_def setIdleTimer_def emit_def Let_def)

lemma idle_msg_25200:
  "idle_msg 25200 = ''No activity seen from realtime in 25200ms; assuming connection has dropped''"
  by (simp add: idle_msg_def show_int_def show_nat.simps)

lemma finish_finished: "isFinished t \<Longrightarrow> finish event err t = t"
  by (simp add: finish_def)

lemma finish_first:
  "\<not> isFinished t \<Longrightarrow>
     finish event err t =
       t\<lparr>isFinished := True, isConnected := False, isDisposed := True,
         maxIdleInterval := None, idleTimer := None,
         pending := (case idleTimer t of None \<Rightarrow> pending t
                     | Some k \<Rightarrow> filter (\<lambda>p. fst p \<noteq> k) (pending t)),
         trace := trace t @ [Emit event [AErr err], Off]\<rparr>"
  by (simp add: finish_def clearTimeout_def emit_def dispose_def off_def Let_def split: option.splits)

lemma onActivity_unset: "maxIdleInterval t = None \<Longrightarrow> onActivity t = t"
  by (simp add: onActivity_def)

lemma quiet_terminal:
  "isFinished t \<Longrightarrow> \<not> isConnected t \<Longrightarrow> maxIdleInterval t = None \<Longrightarrow> terminal_op x
     \<Longrightarrow> exec ce x t = t"
  by (cases x)
     (auto simp: close_def disconnect_def fail_def finish_finished onProtocolMessage_def
        onActivity_unset onClose_def onDisconnect_def onFatalError_def)

lemma quiet_run:
  "isFinished t \<Longrightarrow> \<not> isConnected t \<Longrightarrow> maxIdleInterval t = None \<Longrightarrow> list_all terminal_op ops
     \<Longrightarrow> run ce ops t = t"
  by (induction ops) (simp_all add: quiet_terminal)

lemma onActivity_keeps:
  "trace (onActivity t) = trace t" "isFinished (onActivity t) = isFinished t"
  "isConnected (onActivity t) = isConnected t" "isDisposed (onActivity t) = isDisposed t"
  "maxIdleInterval (onActivity t) = maxIdleInterval t"
  "realtimeRequestTimeout (onActivity t) = realtimeRequestTimeout t"
  "clock (onActivity t) = clock t"
  by (simp_all add: onActivity_def setIdleTimer_def split: option.splits)

lemma finished_terminal_exec:
  assumes "isFinished t" and "terminal_op x"
  shows "filter is_Emit (new_effects t (exec ce x t)) = [] \<and> isFinished (exec ce x t)"
  using assms
  by (cases x)
     (auto simp: close_def disconnect_def fail_def finish_finished onProtocolMessage_def
        onActivity_keeps onClose_def onDisconnect_def onFatalError_def requestClose_def
        requestDisconnect_def send_def new_effects_def)

lemma finished_quiet_exec:
  assumes "isFinished t" and "maxIdleInterval t = None" and "terminal_op x"
  shows "\<exists>ys. exec ce x t = t\<lparr>trace := trace t @ ys\<rparr> \<and> filter is_Emit ys = []"
proof (cases "isConnected t")
  case True
  have "exec ce x t = t\<lparr>trace := trace t @ []\<rparr>
      \<or> exec ce x t = t\<lparr>trace := trace t @ [Send closeMessage]\<rparr>
      \<or> exec ce x t = t\<lparr>trace := trace t @ [Send disconnectMessage]\<rparr>"
    using assms True
    by (cases x)
       (auto simp: close_def disconnect_def fail_def finish_finished onProtocolMessage_def
          onActivity_unset onClose_def onDisconnect_def onFatalError_def requestClose_def
          requestDisconnect_def send_def)
  then show ?thesis by fastforce
next
  case False
  have "exec ce x t = t\<lparr>trace := trace t @ []\<rparr>"
    using assms False
    by (cases x)
       (auto simp: close_def disconnect_def fail_def finish_finished onProtocolMessage_def
          onActivity_unset onClose_def onDisconnect_def onFatalError_def)
  then show ?thesis by fastforce
qed

lemma finished_quiet_run:
  assumes "isFinished t" and "maxIdleInterval t = None" and "list_all terminal_op ops"
  shows "\<exists>ys. run ce ops t = t\<lparr>trace := trace t @ ys\<rparr> \<and> filter is_Emit ys = []"
  using assms
proof (induction ops arbitrary: t)
  case Nil
  have "run ce [] t = t\<lparr>trace := trace t @ []\<rparr>" by simp
  then show ?case by fastforce
next
  case (Cons x xs)
  from Cons.prems have x: "terminal_op x" and xs: "list_all terminal_op xs" by simp_all
  obtain ys where ys: "exec ce x t = t\<lparr>trace := trace t @ ys\<rparr>" "filter is_Emit ys = []"
    using finished_quiet_exec [OF Cons.prems(1,2) x] by blast
  have f: "isFinished (exec ce x t)" "maxIdleInterval (exec ce x t) = None"
    using Cons.prems(1,2) by (simp_all add: ys(1))
  obtain zs where zs: "run ce xs (exec ce x t) = (exec ce x t)\<lparr>trace := trace (exec ce x t) @ zs\<rparr>"
    "filter is_Emit zs = []"
    using Cons.IH [OF f xs] by blast
  have "run ce (x # xs) t = t\<lparr>trace := trace t @ (ys @ zs)\<rparr>"
    by (simp add: zs(1)) (simp add: ys(1))
  moreover have "filter is_Emit (ys @ zs) = []" using ys(2) zs(2) by simp
  ultimately show ?case by blast
qed

lemma t_refinished_eq:
  "t_refinished =
     \<lparr>isConnected = True, isFinished = True, isDisposed = True,
      maxIdleInterval = Some 25000, idleTimer = None, lastActivity = Some 1000,
      realtimeRequestTimeout = 10000, cm_lastActivity = Some 1000, clock = 31000,
      pending = [], nextTimer = 2,
      trace = [RegisterProposedTransport,
               Emit ''closed'' [AErr (Some (closed ce0))], Off,
               Emit ''connected'' [AErr None, AStr None,
                  ADetails (Some \<lparr>cd_maxIdleInterval = Some 15000\<rparr>), AMsg (connected_msg 15000)],
               Send disconnectMessage]\<rparr>"
  by (simp add: t_refinished_def transport_defs)

text \<open>
  Claim C1 speaks of every transport with \<open>isFinished\<close> true. A transport that processes a
  CONNECTED message after it has finished has \<open>maxIdleInterval\<close> set again; once its idle
  timer has expired, a peer's CLOSED message arms a new timer on it.
\<close>
theorem finished_rearm_counterexample:
  "isFinished t_refinished
   \<and> terminal_op (OnProtocolMessage (fromValues_action CLOSED))
   \<and> pending t_refinished = []
   \<and> pending (exec ce0 (OnProtocolMessage (fromValues_action CLOSED)) t_refinished) = [(2, 25100)]
   \<and> nextTimer t_refinished = 2
   \<and> nextTimer (exec ce0 (OnProtocolMessage (fromValues_action CLOSED)) t_refinished) = 3"
  by (simp add: t_refinished_eq transport_defs)

text \<open>
  Claim C1, amended. The first call of \<open>finish\<close> on a transport that is not finished marks
  it finished and not connected, sets \<open>maxIdleInterval\<close> and \<open>idleTimer\<close> to null, removes
  the idle timer from the pending timers, emits the one named outcome event with the error
  and then disposes (\<open>Off\<close> follows the event); on the transport it leaves, no sequence of
  \<open>close()\<close>, \<open>disconnect()\<close>, \<open>fail()\<close> and peer CLOSED, DISCONNECTED or channel-less
  ERROR messages changes anything. On every transport with \<open>isFinished\<close> true, a further
  \<open>finish\<close> is a silent no-op and each of these operations emits no event; and as long as
  \<open>maxIdleInterval\<close> is unset, as \<open>finish\<close> leaves it, no sequence of them emits an event
  or arms a timer.
\<close>
theorem finish_idempotent:
  "(\<not> isFinished t \<longrightarrow>
      (let t1 = finish event err t in
         isFinished t1 \<and> \<not> isConnected t1 \<and> maxIdleInterval t1 = None \<and> idleTimer t1 = None
       \<and> pending t1 = (case idleTimer t of None \<Rightarrow> pending t
                       | Some k \<Rightarrow> filter (\<lambda>p. fst p \<noteq> k) (pending t))
       \<and> nextTimer t1 = nextTimer t
       \<and> isDisposed t1
       \<and> new_effects t t1 = [Emit event [AErr err], Off]
       \<and> finish event' err' t1 = t1
       \<and> (list_all terminal_op ops \<longrightarrow> run ce ops t1 = t1)))
 \<and> (isFinished t \<longrightarrow> finish event err t = t)
 \<and> (isFinished t \<and> terminal_op x \<longrightarrow>
      filter is_Emit (new_effects t (exec ce x t)) = [] \<and> isFinished (exec ce x t))
 \<and> (isFinished t \<and> maxIdleInterval t = None \<and> list_all terminal_op ops \<longrightarrow>
      filter is_Emit (new_effects t (run ce ops t)) = []
    \<and> nextTimer (run ce ops t) = nextTimer t
    \<and> pending (run ce ops t) = pending t
    \<and> idleTimer (run ce ops t) = idleTimer t
    \<and> isFinished (run ce ops t)
    \<and> maxIdleInterval (run ce ops t) = None)"
proof (intro conjI impI)
  assume nf: "\<not> isFinished t"
  define t1 where "t1 = finish event err t"
  have eq: "t1 = t\<lparr>isFinished := True, isConnected := False, isDisposed := True,
         maxIdleInterval := None, idleTimer := None,
         pending := (case idleTimer t of None \<Rightarrow> pending t
                     | Some k \<Rightarrow> filter (\<lambda>p. fst p \<noteq> k) (pending t)),
         trace := trace t @ [Emit event [AErr err], Off]\<rparr>"
    unfolding t1_def using nf by (rule finish_first)
  have fin: "isFinished t1" "\<not> isConnected t1" "maxIdleInterval t1 = None"
    by (simp_all add: eq)
  have again: "finish event' err' t1 = t1"
    using fin(1) by (rule finish_finished)
  have r: "list_all terminal_op ops \<longrightarrow> run ce ops t1 = t1"
    using fin by (simp add: quiet_run)
  have first: "idleTimer t1 = None" "isDisposed t1" "nextTimer t1 = nextTimer t"
    "pending t1 = (case idleTimer t of None \<Rightarrow> pending t
                         | Some k \<Rightarrow> filter (\<lambda>p. fst p \<noteq> k) (pending t))"
    "new_effects t t1 = [Emit event [AErr err], Off]"
    by (simp_all add: eq new_effects_def)
  show "let t1 = finish event err t in
         isFinished t1 \<and> \<not> isConnected t1 \<and> maxIdleInterval t1 = None \<and> idleTimer t1 = None
       \<and> pending t1 = (case idleTimer t of None \<Rightarrow> pending t
                       | Some k \<Rightarrow> filter (\<lambda>p. fst p \<noteq> k) (pending t))
       \<and> nextTimer t1 = nextTimer t
       \<and> isDisposed t1
       \<and> new_effects t t1 = [Emit event [AErr err], Off]
       \<and> finish event' err' t1 = t1
       \<and> (list_all terminal_op ops \<longrightarrow> run ce ops t1 = t1)"
    unfolding Let_def t1_def [symmetric]
    using fin again r first by blast
next
  assume "isFinished t"
  then show "finish event err t = t" by (rule finish_finished)
next
  assume a: "isFinished t \<and> terminal_op x"
  then show "filter is_Emit (new_effects t (exec ce x t)) = []" "isFinished (exec ce x t)"
    using finished_terminal_exec [of t x ce] by simp_all
next
  assume a: "isFinished t \<and> maxIdleInterval t = None \<and> list_all terminal_op ops"
  then obtain ys where ys: "run ce ops t = t\<lparr>trace := trace t @ ys\<rparr>" "filter is_Emit ys = []"
    using finished_quiet_run [of t ops ce] by blast
  show "filter is_Emit (new_effects t (run ce ops t)) = []"
    by (simp add: ys new_effects_def)
  show "nextTimer (run ce ops t) = nextTimer t" "pending (run ce ops t) = pending t"
    "idleTimer (run ce ops t) = idleTimer t"
    by (simp_all add: ys(1))
  show "isFinished (run ce ops t)" "maxIdleInterval (run ce ops t) = None"
    using a by (simp_all add: ys(1))
qed

theorem finish_idempotent_witness:
  "\<not> isFinished t_live \<and> list_all terminal_op ops_after \<and>
   (let t1 = finish ''closed'' None t_live in
      isFinished t1 \<and> \<not> isConnected t1 \<and> maxIdleInterval t1 = None \<and> idleTimer t1 = None
    \<and> pending t1 = [] \<and> isDisposed t1
    \<and> new_effects t_live t1 = [Emit ''closed'' [AErr None], Off]
    \<and> finish ''failed'' (Some err0) t1 = t1
    \<and> run ce0 ops_after t1 = t1)
   \<and> isFinished t_refinished
   \<and> finish ''failed'' (Some err0) t_refinished = t_refinished
   \<and> new_effects t_refinished (exec ce0 Close t_refinished) = [Send closeMessage]
   \<and> isFinished (t_refinished\<lparr>maxIdleInterval := None\<rparr>)
   \<and> maxIdleInterval (t_refinished\<lparr>maxIdleInterval := None\<rparr>) = None
   \<and> new_effects (t_refinished\<lparr>maxIdleInterval := None\<rparr>)
        (run ce0 ops_after (t_refinished\<lparr>maxIdleInterval := None\<rparr>)) =
       [Send closeMessage, Send disconnectMessage, Send disconnectMessage]
   \<and> pending (run ce0 ops_after (t_refinished\<lparr>maxIdleInterval := None\<rparr>)) = []"
proof -
  have h1: "\<not> isFinished t_live" by (simp add: t_live_eq)
  have h2: "list_all terminal_op ops_after" by (simp add: ops_after_def fromValues_action_def)
  have p: "idleTimer t_live = Some 1" "pending t_live = [(1, 25100)]" by (simp_all add: t_live_eq)
  have a: "new_effects t_live (finish ''closed'' None t_live) = [Emit ''closed'' [AErr None], Off]"
    "pending (finish ''closed'' None t_live) = []"
    using h1 p by (simp_all add: finish_first new_effects_def)
  have b: "run ce0 ops_after (finish ''closed'' None t_live) = finish ''closed'' None t_live"
    using h1 h2
      finish_idempotent [where t = t_live and event = "''closed''" and err = None and ce = ce0
         and ops = ops_after]
    by (simp add: Let_def)
  have c: "isFinished t_refinished" by (simp add: t_refinished_eq)
  have d: "new_effects t_refinished (exec ce0 Close t_refinished) = [Send closeMessage]"
    by (simp add: t_refinished_eq transport_defs)
  have e: "new_effects (t_refinished\<lparr>maxIdleInterval := None\<rparr>)
        (run ce0 ops_after (t_refinished\<lparr>maxIdleInterval := None\<rparr>)) =
       [Send closeMessage, Send disconnectMessage, Send disconnectMessage]"
    "pending (run ce0 ops_after (t_refinished\<lparr>maxIdleInterval := None\<rparr>)) = []"
    by (simp_all add: t_refinished_eq ops_after_def transport_defs)
  show ?thesis
    using h1 h2 a b c d e
      finish_idempotent [where t = t_live and event = "''closed''" and err = None and ce = ce0
         and ops = ops_after and event' = "''failed''" and err' = "Some err0"]
      finish_idempotent [where t = t_refinished and event = "''failed''" and err = "Some err0"
         and x = Close and ce = ce0]
      finish_idempotent [where t = "t_refinished\<lparr>maxIdleInterval := None\<rparr>" and ce = ce0
         and ops = ops_after]
    by (simp add: Let_def)
qed

lemma finish_new_effects:
  "new_effects t (finish event err t) =
     (if isFinished t then [] else [Emit event [AErr err], Off])"
  by (simp add: finish_first finish_finished new_effects_def)

text \<open>
  Claim C2. An inbound ERROR message without a channel makes the transport finish with
  outcome \<open>failed\<close> and the message's error, and nothing is handed to the channel-message
  handler; an ERROR message with a channel is handed unchanged to the channel-message
  handler, nothing is emitted and the transport's finished flag stays as it was.
\<close>
theorem error_dispatch:
  assumes "action m = ERROR"
  shows "(channel m = None \<longrightarrow>
            onProtocolMessage m t = (None, finish ''failed'' (msg_error m) (onActivity t))
          \<and> new_effects t (snd (onProtocolMessage m t)) =
              (if isFinished t then [] else [Emit ''failed'' [AErr (msg_error m)], Off])
          \<and> isFinished (snd (onProtocolMessage m t)))
       \<and> (channel m \<noteq> None \<longrightarrow>
            onProtocolMessage m t = (None, onChannelMessage m (onActivity t))
          \<and> new_effects t (snd (onProtocolMessage m t)) = [OnChannelMessage m]
          \<and> isFinished (snd (onProtocolMessage m t)) = isFinished t)"
proof (intro conjI impI)
  assume c: "channel m = None"
  show eq: "onProtocolMessage m t = (None, finish ''failed'' (msg_error m) (onActivity t))"
    using assms c by (simp add: onProtocolMessage_def onFatalError_def)
  have "new_effects t (finish ''failed'' (msg_error m) (onActivity t)) =
          new_effects (onActivity t) (finish ''failed'' (msg_error m) (onActivity t))"
    by (simp add: new_effects_def onActivity_keeps)
  then show "new_effects t (snd (onProtocolMessage m t)) =
              (if isFinished t then [] else [Emit ''failed'' [AErr (msg_error m)], Off])"
    by (simp add: eq finish_new_effects onActivity_keeps)
  show "isFinished (snd (onProtocolMessage m t))"
    by (cases "isFinished (onActivity t)") (simp_all add: eq finish_first finish_finished)
next
  assume c: "channel m \<noteq> None"
  show eq: "onProtocolMessage m t = (None, onChannelMessage m (onActivity t))"
    using assms c by (auto simp add: onProtocolMessage_def Let_def)
  show "new_effects t (snd (onProtocolMessage m t)) = [OnChannelMessage m]"
    by (simp add: eq new_effects_def onChannelMessage_def onActivity_keeps)
  show "isFinished (snd (onProtocolMessage m t)) = isFinished t"
    by (simp add: eq onChannelMessage_def onActivity_keeps)
qed

theorem error_dispatch_witness:
  "action fatal_msg = ERROR \<and> channel fatal_msg = None
   \<and> new_effects t_live (snd (onProtocolMessage fatal_msg t_live)) = [Emit ''failed'' [AErr (Some err0)], Off]
   \<and> isFinished (snd (onProtocolMessage fatal_msg t_live))
   \<and> action channel_err_msg = ERROR \<and> channel channel_err_msg = Some ''chat''
   \<and> new_effects t_live (snd (onProtocolMessage channel_err_msg t_live)) = [OnChannelMessage channel_err_msg]
   \<and> \<not> isFinished (snd (onProtocolMessage channel_err_msg t_live))"
proof -
  have a: "action fatal_msg = ERROR" "channel fatal_msg = None" "msg_error fatal_msg = Some err0"
    by (simp_all add: fatal_msg_def fromValues_action_def)
  have b: "action channel_err_msg = ERROR" "channel channel_err_msg = Some ''chat''"
    by (simp_all add: channel_err_msg_def fromValues_action_def)
  have f: "\<not> isFinished t_live" by (simp add: t_live_eq)
  show ?thesis
    using a b f error_dispatch [OF a(1), of t_live] error_dispatch [OF b(1), of t_live]
    by (simp add: t_live_eq transport_defs)
qed

text \<open>
  Claim C3 says that \<open>close()\<close> finishes with outcome \<open>closed\<close> carrying no error. On a new
  transport the emitted \<open>closed\<close> event carries the value of \<open>ConnectionErrors.closed\<close>.
\<close>
theorem close_no_error_counterexample:
  "new_effects (Transport_new 10000 0) (close ce0 (Transport_new 10000 0)) =
     [Emit ''closed'' [AErr (Some (ErrorInfo ''Connection closed'' (Some 80017) (Some 400)))], Off]
   \<and> Emit ''closed'' [AErr None] \<notin> set (trace (close ce0 (Transport_new 10000 0)))"
  by (simp add: close_def finish_def Transport_new_def new_effects_def ce0_def clearTimeout_def
        emit_def dispose_def off_def Let_def)

text \<open>
  Claim C3, amended. \<open>close()\<close> sends the CLOSE message exactly when the transport is
  connected, and in all cases calls \<open>finish\<close> with outcome \<open>closed\<close> and the error value
  \<open>ConnectionErrors.closed\<close>; on a transport that was not finished this emits \<open>closed\<close>
  with that error and disposes.
\<close>
theorem close_sends_and_finishes:
  "new_effects t (close ce t) =
      (if isConnected t then [Send closeMessage] else [])
      @ (if isFinished t then [] else [Emit ''closed'' [AErr (Some (closed ce))], Off])
   \<and> (Send closeMessage \<in> set (new_effects t (close ce t))) = isConnected t
   \<and> close ce t = finish ''closed'' (Some (closed ce)) (if isConnected t then send closeMessage t else t)
   \<and> isFinished (close ce t)"
proof -
  have ne: "new_effects t (close ce t) =
      (if isConnected t then [Send closeMessage] else [])
      @ (if isFinished t then [] else [Emit ''closed'' [AErr (Some (closed ce))], Off])"
    by (cases "isFinished t")
       (simp_all add: close_def requestClose_def send_def finish_first finish_finished new_effects_def)
  have fin: "isFinished (close ce t)"
    by (cases "isFinished t")
       (simp_all add: close_def requestClose_def send_def finish_first finish_finished)
  have snd: "(Send closeMessage \<in> set (new_effects t (close ce t))) = isConnected t"
    by (simp add: ne)
  have eq: "close ce t = finish ''closed'' (Some (closed ce)) (if isConnected t then send closeMessage t else t)"
    by (simp add: close_def requestClose_def)
  show ?thesis using ne fin snd eq by blast
qed

theorem close_sends_and_finishes_witness:
  "new_effects t_live (close ce0 t_live) =
     [Send closeMessage, Emit ''closed'' [AErr (Some (closed ce0))], Off]
   \<and> new_effects (Transport_new 10000 0) (close ce0 (Transport_new 10000 0)) =
     [Emit ''closed'' [AErr (Some (closed ce0))], Off]"
  using close_sends_and_finishes [of t_live ce0]
    close_sends_and_finishes [of "Transport_new 10000 0" ce0]
  by (simp add: t_live_eq transport_defs)

text \<open>
  Claim C4. \<open>onConnect\<close> marks the transport connected; then, without
  \<open>connectionDetails\<close> it throws; with a positive \<open>maxIdleInterval\<close> \<open>D\<close> it sets the
  transport's \<open>maxIdleInterval\<close> to \<open>D\<close> plus the realtime request timeout and records
  activity, which (the timeout not being negative) stamps the time and, no timer pending,
  arms the idle timer for that interval plus 100; with \<open>maxIdleInterval\<close> zero or absent
  it changes nothing else, so an unset \<open>maxIdleInterval\<close> stays unset and no timer is armed.
\<close>
theorem onConnect_cases:
  "(connectionDetails m = None \<longrightarrow>
      onConnect m t =
        (Some (Fault ''Transport.onConnect(): Connect message recieved without connectionDetails''),
         t\<lparr>isConnected := True\<rparr>))
 \<and> (connectionDetails m = Some cd \<and> cd_maxIdleInterval cd = Some D \<and> 0 < D \<longrightarrow>
      onConnect m t =
        (None, onActivity (t\<lparr>isConnected := True,
                              maxIdleInterval := Some (D + realtimeRequestTimeout t)\<rparr>))
    \<and> isConnected (snd (onConnect m t))
    \<and> maxIdleInterval (snd (onConnect m t)) = Some (D + realtimeRequestTimeout t)
    \<and> (0 \<le> realtimeRequestTimeout t \<longrightarrow>
          lastActivity (snd (onConnect m t)) = Some (clock t)
        \<and> cm_lastActivity (snd (onConnect m t)) = Some (clock t)
        \<and> (idleTimer t = None \<longrightarrow>
              idleTimer (snd (onConnect m t)) = Some (nextTimer t)
            \<and> pending (snd (onConnect m t)) =
                pending t @ [(nextTimer t, D + realtimeRequestTimeout t + 100)])))
 \<and> (connectionDetails m = Some cd \<and> (cd_maxIdleInterval cd = None \<or> cd_maxIdleInterval cd = Some 0) \<longrightarrow>
      onConnect m t = (None, t\<lparr>isConnected := True\<rparr>)
    \<and> maxIdleInterval (snd (onConnect m t)) = maxIdleInterval t
    \<and> idleTimer (snd (onConnect m t)) = idleTimer t
    \<and> pending (snd (onConnect m t)) = pending t
    \<and> nextTimer (snd (onConnect m t)) = nextTimer t)"
proof (intro conjI impI)
  assume "connectionDetails m = None"
  then show "onConnect m t =
        (Some (Fault ''Transport.onConnect(): Connect message recieved without connectionDetails''),
         t\<lparr>isConnected := True\<rparr>)"
    by (simp add: onConnect_def)
next
  assume a: "connectionDetails m = Some cd \<and> cd_maxIdleInterval cd = Some D \<and> 0 < D"
  show eq: "onConnect m t =
        (None, onActivity (t\<lparr>isConnected := True,
                              maxIdleInterval := Some (D + realtimeRequestTimeout t)\<rparr>))"
    using a by (simp add: onConnect_def)
  show "isConnected (snd (onConnect m t))"
    by (simp add: eq onActivity_keeps)
  show "maxIdleInterval (snd (onConnect m t)) = Some (D + realtimeRequestTimeout t)"
    by (simp add: eq onActivity_keeps)
  {
    assume r: "0 \<le> realtimeRequestTimeout t"
    with a have nz: "D + realtimeRequestTimeout t \<noteq> 0" by simp
    show "lastActivity (snd (onConnect m t)) = Some (clock t)"
      using nz by (simp add: eq onActivity_def setIdleTimer_def)
    show "cm_lastActivity (snd (onConnect m t)) = Some (clock t)"
      using nz by (simp add: eq onActivity_def setIdleTimer_def)
    assume i: "idleTimer t = None"
    show "idleTimer (snd (onConnect m t)) = Some (nextTimer t)"
      using nz i by (simp add: eq onActivity_def setIdleTimer_def)
    show "pending (snd (onConnect m t)) =
                pending t @ [(nextTimer t, D + realtimeRequestTimeout t + 100)]"
      using nz i by (simp add: eq onActivity_def setIdleTimer_def)
  }
next
  assume a: "connectionDetails m = Some cd \<and> (cd_maxIdleInterval cd = None \<or> cd_maxIdleInterval cd = Some 0)"
  show eq: "onConnect m t = (None, t\<lparr>isConnected := True\<rparr>)"
    using a by (auto simp add: onConnect_def)
  show "maxIdleInterval (snd (onConnect m t)) = maxIdleInterval t"
       "idleTimer (snd (onConnect m t)) = idleTimer t"
       "pending (snd (onConnect m t)) = pending t"
       "nextTimer (snd (onConnect m t)) = nextTimer t"
    by (simp_all add: eq)
qed

theorem onConnect_cases_witness:
  "connectionDetails connected_no_details = None
   \<and> fst (onConnect connected_no_details (Transport_new 10000 1000)) =
       Some (Fault ''Transport.onConnect(): Connect message recieved without connectionDetails'')
   \<and> isConnected (snd (onConnect connected_no_details (Transport_new 10000 1000)))
   \<and> isConnected (snd (onConnect (connected_msg 15000) (Transport_new 10000 1000)))
   \<and> maxIdleInterval (snd (onConnect (connected_msg 15000) (Transport_new 10000 1000))) = Some 25000
   \<and> lastActivity (snd (onConnect (connected_msg 15000) (Transport_new 10000 1000))) = Some 1000
   \<and> pending (snd (onConnect (connected_msg 15000) (Transport_new 10000 1000))) = [(1, 25100)]
   \<and> onConnect (connected_msg 0) (Transport_new 10000 1000) =
       (None, (Transport_new 10000 1000)\<lparr>isConnected := True\<rparr>)
   \<and> onConnect connected_no_idle (Transport_new 10000 1000) =
       (None, (Transport_new 10000 1000)\<lparr>isConnected := True\<rparr>)
   \<and> maxIdleInterval (snd (onConnect connected_no_idle (Transport_new 10000 1000))) = None"
  using
    onConnect_cases [of connected_no_details "Transport_new 10000 1000"]
    onConnect_cases [of "connected_msg 15000" "Transport_new 10000 1000"
       "\<lparr>cd_maxIdleInterval = Some 15000\<rparr>" 15000]
    onConnect_cases [of "connected_msg 0" "Transport_new 10000 1000" "\<lparr>cd_maxIdleInterval = Some 0\<rparr>"]
    onConnect_cases [of connected_no_idle "Transport_new 10000 1000" "\<lparr>cd_maxIdleInterval = None\<rparr>"]
  by (simp add: connected_no_details_def connected_no_idle_def transport_defs)

lemma timer_inv_cases:
  "timer_inv t = (pending t = [] \<or> (\<exists>p. pending t = [p] \<and> idleTimer t = Some (fst p)))"
  by (auto simp: timer_inv_def split: list.splits)

lemma timer_inv_new: "timer_inv (Transport_new rrt now)"
  by (simp add: timer_inv_def Transport_new_def)

lemma timer_inv_finish: "timer_inv t \<Longrightarrow> timer_inv (finish event err t)"
  by (cases "isFinished t")
     (auto simp: finish_first finish_finished timer_inv_cases split: option.splits)

lemma timer_inv_send: "timer_inv t \<Longrightarrow> timer_inv (send m t)"
  by (simp add: timer_inv_cases send_def)

lemma timer_inv_setIdleTimer: "timer_inv t \<Longrightarrow> timer_inv (setIdleTimer d t)"
  by (auto simp: setIdleTimer_def timer_inv_cases)

lemma timer_inv_onActivity: "timer_inv t \<Longrightarrow> timer_inv (onActivity t)"
proof -
  assume i: "timer_inv t"
  have a: "timer_inv (t\<lparr>lastActivity := Some (clock t), cm_lastActivity := Some (clock t)\<rparr>)"
    using i by (simp add: timer_inv_cases)
  show ?thesis
    using i timer_inv_setIdleTimer [OF a] by (simp add: onActivity_def split: option.splits)
qed

lemma timer_inv_disconnect: "timer_inv t \<Longrightarrow> timer_inv (disconnect ce err t)"
  by (simp add: disconnect_def requestDisconnect_def timer_inv_finish timer_inv_send)

lemma timer_inv_onConnect: "timer_inv t \<Longrightarrow> timer_inv (snd (onConnect m t))"
proof -
  assume i: "timer_inv t"
  have a: "timer_inv (t\<lparr>isConnected := True\<rparr>)"
    using i by (simp add: timer_inv_cases)
  have b: "timer_inv (t\<lparr>isConnected := True, maxIdleInterval := Some x\<rparr>)" for x
    using i by (simp add: timer_inv_cases)
  show ?thesis
    using a timer_inv_onActivity [OF b]
    by (simp add: onConnect_def Let_def split: option.splits)
qed

lemma timer_inv_trace: "timer_inv (t\<lparr>trace := xs\<rparr>) = timer_inv t"
  by (simp add: timer_inv_cases)

lemma timer_inv_onProtocolMessage: "timer_inv t \<Longrightarrow> timer_inv (snd (onProtocolMessage m t))"
proof -
  assume "timer_inv t"
  then have i: "timer_inv (onActivity t)" by (rule timer_inv_onActivity)
  have c: "timer_inv (snd (onConnect m (onActivity t)))"
    using i by (rule timer_inv_onConnect)
  show ?thesis
    using i c
    by (cases "action m")
       (auto simp: onProtocolMessage_def Let_def emit_def onChannelMessage_def authorize_def
          onClose_def onDisconnect_def onFatalError_def timer_inv_finish timer_inv_trace
          split: prod.splits option.splits)
qed

lemma timer_inv_onIdleTimerExpire:
  "timer_inv t \<Longrightarrow> pending t = [] \<Longrightarrow> timer_inv (snd (onIdleTimerExpire ce t))"
proof -
  assume i: "timer_inv t" and p: "pending t = []"
  have a: "timer_inv (t\<lparr>idleTimer := None\<rparr>)"
    using p by (simp add: timer_inv_cases)
  show ?thesis
    using i timer_inv_disconnect [OF a] timer_inv_setIdleTimer [OF a]
    by (simp add: onIdleTimerExpire_def Let_def split: option.splits)
qed

lemma timer_inv_fireTimer: "timer_inv t \<Longrightarrow> timer_inv (snd (fireTimer ce t))"
proof (cases "pending t")
  case Nil
  assume "timer_inv t"
  with Nil show ?thesis by (simp add: fireTimer_def)
next
  case (Cons p ps)
  assume "timer_inv t"
  with Cons have "ps = []" by (simp add: timer_inv_cases)
  then have "timer_inv (t\<lparr>pending := ps\<rparr>)" "pending (t\<lparr>pending := ps\<rparr>) = []"
    by (simp_all add: timer_inv_cases)
  then have "timer_inv (snd (onIdleTimerExpire ce (t\<lparr>pending := ps\<rparr>)))"
    by (rule timer_inv_onIdleTimerExpire)
  with Cons show ?thesis by (simp add: fireTimer_def)
qed

lemma timer_inv_exec: "timer_inv t \<Longrightarrow> timer_inv (exec ce x t)"
proof (cases x)
  case (Advance n)
  assume "timer_inv t"
  with Advance show ?thesis by (simp add: timer_inv_cases)
next
  case Dispose
  assume "timer_inv t"
  with Dispose show ?thesis by (simp add: timer_inv_cases dispose_def off_def)
qed (simp_all add: connect_def close_def disconnect_def fail_def ping_def requestClose_def
       requestDisconnect_def timer_inv_finish timer_inv_send timer_inv_onProtocolMessage
       timer_inv_fireTimer)

lemma timer_inv_run: "timer_inv t \<Longrightarrow> timer_inv (run ce ops t)"
  by (induction ops arbitrary: t) (simp_all add: timer_inv_exec)

lemma timer_inv_length: "timer_inv t \<Longrightarrow> length (pending t) \<le> 1"
  by (auto simp: timer_inv_cases)

lemma onIdleTimerExpire_dead:
  assumes "lastActivity t = Some la" "la \<noteq> 0" "maxIdleInterval t = Some mi" "mi \<noteq> 0"
    and "mi \<le> clock t - la"
  shows "onIdleTimerExpire ce t =
           (None, disconnect ce
                    (Some (ErrorInfo (idle_msg (clock t - la)) (Some 80003) (Some 408)))
                    (t\<lparr>idleTimer := None\<rparr>))"
  using assms by (simp add: onIdleTimerExpire_def Let_def)

lemma onIdleTimerExpire_rearm:
  assumes "lastActivity t = Some la" "la \<noteq> 0" "maxIdleInterval t = Some mi" "mi \<noteq> 0"
    and "clock t - la < mi"
  shows "onIdleTimerExpire ce t =
           (None, t\<lparr>idleTimer := Some (nextTimer t),
                    pending := pending t @ [(nextTimer t, mi - (clock t - la) + 100)],
                    nextTimer := Suc (nextTimer t)\<rparr>)"
  using assms by (simp add: onIdleTimerExpire_def Let_def setIdleTimer_def)

lemma disconnect_new_effects:
  "new_effects t (disconnect ce err t) =
      (if isConnected t then [Send disconnectMessage] else [])
      @ (if isFinished t then [] else [Emit ''disconnected'' [AErr (or_default err (disconnected ce))], Off])"
  by (cases "isFinished t")
     (simp_all add: disconnect_def requestDisconnect_def send_def finish_first finish_finished
        new_effects_def)

lemma onActivity_armed:
  assumes "maxIdleInterval t = Some d" "d \<noteq> 0" "idleTimer t = None"
  shows "onActivity t =
           t\<lparr>lastActivity := Some (clock t), cm_lastActivity := Some (clock t),
             idleTimer := Some (nextTimer t), pending := pending t @ [(nextTimer t, d + 100)],
             nextTimer := Suc (nextTimer t)\<rparr>"
  using assms by (simp add: onActivity_def setIdleTimer_def)

lemma onActivity_pending:
  assumes "maxIdleInterval t = Some d" "d \<noteq> 0" "idleTimer t \<noteq> None"
  shows "onActivity t = t\<lparr>lastActivity := Some (clock t), cm_lastActivity := Some (clock t)\<rparr>"
  using assms by (simp add: onActivity_def setIdleTimer_def)

text \<open>
  Claim C5. \<open>onActivity\<close> does nothing when \<open>maxIdleInterval\<close> is unset (null, or the falsy
  \<open>0\<close>); otherwise it stamps the current time on the transport and on the connection
  manager, and arms a timer for \<open>maxIdleInterval + 100\<close> unless one is pending, in which
  case the timers stay as they are. Whatever happens to a new transport, at most one timer
  is pending. When a pending timer fires, with both \<open>lastActivity\<close> and \<open>maxIdleInterval\<close>
  set: if the time since the last activity is at least \<open>maxIdleInterval\<close>, the transport
  calls \<open>disconnect\<close> with the \<open>No activity seen\<close> error (code 80003, status 408), which on
  a transport that is not finished emits \<open>disconnected\<close>; otherwise it arms a timer for the
  remaining time plus 100. In particular the timer that \<open>onActivity\<close> arms, firing after
  \<open>n\<close> units without activity, disconnects when \<open>n\<close> is at least \<open>maxIdleInterval\<close> and
  re-arms for \<open>maxIdleInterval - n + 100\<close> otherwise.
\<close>
theorem idle_monitor:
  "(maxIdleInterval t = None \<or> maxIdleInterval t = Some 0 \<longrightarrow> onActivity t = t)
 \<and> (maxIdleInterval t = Some d \<and> d \<noteq> 0 \<longrightarrow>
      lastActivity (onActivity t) = Some (clock t)
    \<and> cm_lastActivity (onActivity t) = Some (clock t)
    \<and> (idleTimer t = None \<longrightarrow>
          idleTimer (onActivity t) = Some (nextTimer t)
        \<and> pending (onActivity t) = pending t @ [(nextTimer t, d + 100)])
    \<and> (idleTimer t \<noteq> None \<longrightarrow>
          idleTimer (onActivity t) = idleTimer t
        \<and> pending (onActivity t) = pending t
        \<and> nextTimer (onActivity t) = nextTimer t))
 \<and> length (pending (run ce ops (Transport_new rrt now))) \<le> 1
 \<and> (lastActivity t = Some la \<and> la \<noteq> 0 \<and> maxIdleInterval t = Some mi \<and> mi \<noteq> 0 \<longrightarrow>
      (mi \<le> clock t - la \<longrightarrow>
          onIdleTimerExpire ce t =
            (None, disconnect ce
                     (Some (ErrorInfo (idle_msg (clock t - la)) (Some 80003) (Some 408)))
                     (t\<lparr>idleTimer := None\<rparr>))
        \<and> new_effects t (snd (onIdleTimerExpire ce t)) =
            (if isConnected t then [Send disconnectMessage] else [])
            @ (if isFinished t then []
               else [Emit ''disconnected''
                       [AErr (Some (ErrorInfo (idle_msg (clock t - la)) (Some 80003) (Some 408)))],
                     Off]))
    \<and> (clock t - la < mi \<longrightarrow>
          onIdleTimerExpire ce t =
            (None, t\<lparr>idleTimer := Some (nextTimer t),
                     pending := pending t @ [(nextTimer t, mi - (clock t - la) + 100)],
                     nextTimer := Suc (nextTimer t)\<rparr>)))
 \<and> (pending t = p # ps \<and> lastActivity t = Some la \<and> la \<noteq> 0
      \<and> maxIdleInterval t = Some mi \<and> mi \<noteq> 0 \<longrightarrow>
      (mi \<le> clock t - la \<longrightarrow>
          exec ce TimerFires t =
            disconnect ce
              (Some (ErrorInfo (idle_msg (clock t - la)) (Some 80003) (Some 408)))
              (t\<lparr>pending := ps, idleTimer := None\<rparr>)
        \<and> new_effects t (exec ce TimerFires t) =
            (if isConnected t then [Send disconnectMessage] else [])
            @ (if isFinished t then []
               else [Emit ''disconnected''
                       [AErr (Some (ErrorInfo (idle_msg (clock t - la)) (Some 80003) (Some 408)))],
                     Off]))
    \<and> (clock t - la < mi \<longrightarrow>
          exec ce TimerFires t =
            t\<lparr>idleTimer := Some (nextTimer t),
              pending := ps @ [(nextTimer t, mi - (clock t - la) + 100)],
              nextTimer := Suc (nextTimer t)\<rparr>))
 \<and> (maxIdleInterval t = Some d \<and> d \<noteq> 0 \<and> idleTimer t = None \<and> pending t = []
      \<and> clock t \<noteq> 0 \<longrightarrow>
      (d \<le> int n \<longrightarrow>
          new_effects t (run ce [Advance n, TimerFires] (onActivity t)) =
            (if isConnected t then [Send disconnectMessage] else [])
            @ (if isFinished t then []
               else [Emit ''disconnected''
                       [AErr (Some (ErrorInfo (idle_msg (int n)) (Some 80003) (Some 408)))],
                     Off]))
    \<and> (int n < d \<longrightarrow>
          pending (run ce [Advance n, TimerFires] (onActivity t)) =
            [(Suc (nextTimer t), d - int n + 100)]
        \<and> idleTimer (run ce [Advance n, TimerFires] (onActivity t)) = Some (Suc (nextTimer t))
        \<and> new_effects t (run ce [Advance n, TimerFires] (onActivity t)) = []))"
proof (intro conjI impI)
  assume "maxIdleInterval t = None \<or> maxIdleInterval t = Some 0"
  then show "onActivity t = t"
    by (auto simp: onActivity_def)
next
  assume a: "maxIdleInterval t = Some d \<and> d \<noteq> 0"
  show "lastActivity (onActivity t) = Some (clock t)"
       "cm_lastActivity (onActivity t) = Some (clock t)"
    using a by (simp_all add: onActivity_def setIdleTimer_def)
  {
    assume "idleTimer t = None"
    with a have "onActivity t =
           t\<lparr>lastActivity := Some (clock t), cm_lastActivity := Some (clock t),
             idleTimer := Some (nextTimer t), pending := pending t @ [(nextTimer t, d + 100)],
             nextTimer := Suc (nextTimer t)\<rparr>"
      by (simp add: onActivity_armed)
    then show "idleTimer (onActivity t) = Some (nextTimer t)"
      "pending (onActivity t) = pending t @ [(nextTimer t, d + 100)]"
      by simp_all
  }
  {
    assume "idleTimer t \<noteq> None"
    with a have "onActivity t = t\<lparr>lastActivity := Some (clock t), cm_lastActivity := Some (clock t)\<rparr>"
      by (simp add: onActivity_pending)
    then show "idleTimer (onActivity t) = idleTimer t" "pending (onActivity t) = pending t"
      "nextTimer (onActivity t) = nextTimer t"
      by simp_all
  }
next
  show "length (pending (run ce ops (Transport_new rrt now))) \<le> 1"
    by (intro timer_inv_length timer_inv_run timer_inv_new)
next
  assume a: "lastActivity t = Some la \<and> la \<noteq> 0 \<and> maxIdleInterval t = Some mi \<and> mi \<noteq> 0"
  {
    assume d: "mi \<le> clock t - la"
    show eq: "onIdleTimerExpire ce t =
            (None, disconnect ce
                     (Some (ErrorInfo (idle_msg (clock t - la)) (Some 80003) (Some 408)))
                     (t\<lparr>idleTimer := None\<rparr>))"
      using a d by (simp add: onIdleTimerExpire_dead)
    have "new_effects t (snd (onIdleTimerExpire ce t)) =
            new_effects (t\<lparr>idleTimer := None\<rparr>) (snd (onIdleTimerExpire ce t))"
      by (simp add: new_effects_def)
    then show "new_effects t (snd (onIdleTimerExpire ce t)) =
            (if isConnected t then [Send disconnectMessage] else [])
            @ (if isFinished t then []
               else [Emit ''disconnected''
                       [AErr (Some (ErrorInfo (idle_msg (clock t - la)) (Some 80003) (Some 408)))],
                     Off])"
      by (simp add: eq disconnect_new_effects or_default_def)
  }
  {
    assume "clock t - la < mi"
    with a show "onIdleTimerExpire ce t =
            (None, t\<lparr>idleTimer := Some (nextTimer t),
                     pending := pending t @ [(nextTimer t, mi - (clock t - la) + 100)],
                     nextTimer := Suc (nextTimer t)\<rparr>)"
      by (simp add: onIdleTimerExpire_rearm)
  }
next
  assume a: "pending t = p # ps \<and> lastActivity t = Some la \<and> la \<noteq> 0
      \<and> maxIdleInterval t = Some mi \<and> mi \<noteq> 0"
  define u where "u = t\<lparr>pending := ps\<rparr>"
  have fire: "exec ce TimerFires t = snd (onIdleTimerExpire ce u)"
    using a by (simp add: fireTimer_def u_def)
  have u: "lastActivity u = Some la" "maxIdleInterval u = Some mi" "clock u = clock t"
    "trace u = trace t" "isConnected u = isConnected t" "isFinished u = isFinished t"
    "nextTimer u = nextTimer t" "pending u = ps"
    using a by (simp_all add: u_def)
  {
    assume d: "mi \<le> clock t - la"
    have e: "onIdleTimerExpire ce u =
            (None, disconnect ce
                     (Some (ErrorInfo (idle_msg (clock u - la)) (Some 80003) (Some 408)))
                     (u\<lparr>idleTimer := None\<rparr>))"
      using a d u by (intro onIdleTimerExpire_dead) simp_all
    show eq: "exec ce TimerFires t =
            disconnect ce
              (Some (ErrorInfo (idle_msg (clock t - la)) (Some 80003) (Some 408)))
              (t\<lparr>pending := ps, idleTimer := None\<rparr>)"
      unfolding fire e by (simp add: u_def)
    have "new_effects t
            (disconnect ce
              (Some (ErrorInfo (idle_msg (clock t - la)) (Some 80003) (Some 408)))
              (t\<lparr>pending := ps, idleTimer := None\<rparr>)) =
          new_effects (t\<lparr>pending := ps, idleTimer := None\<rparr>)
            (disconnect ce
              (Some (ErrorInfo (idle_msg (clock t - la)) (Some 80003) (Some 408)))
              (t\<lparr>pending := ps, idleTimer := None\<rparr>))"
      by (simp add: new_effects_def)
    then show "new_effects t (exec ce TimerFires t) =
            (if isConnected t then [Send disconnectMessage] else [])
            @ (if isFinished t then []
               else [Emit ''disconnected''
                       [AErr (Some (ErrorInfo (idle_msg (clock t - la)) (Some 80003) (Some 408)))],
                     Off])"
      unfolding eq by (simp add: disconnect_new_effects or_default_def)
  }
  {
    assume d: "clock t - la < mi"
    have e: "onIdleTimerExpire ce u =
           (None, u\<lparr>idleTimer := Some (nextTimer u),
                    pending := pending u @ [(nextTimer u, mi - (clock u - la) + 100)],
                    nextTimer := Suc (nextTimer u)\<rparr>)"
      using a d u by (intro onIdleTimerExpire_rearm) simp_all
    show "exec ce TimerFires t =
            t\<lparr>idleTimer := Some (nextTimer t),
              pending := ps @ [(nextTimer t, mi - (clock t - la) + 100)],
              nextTimer := Suc (nextTimer t)\<rparr>"
      unfolding fire e by (simp add: u_def)
  }
next
  assume a: "maxIdleInterval t = Some d \<and> d \<noteq> 0 \<and> idleTimer t = None \<and> pending t = []
      \<and> clock t \<noteq> 0"
  define v where "v = exec ce (Advance n) (onActivity t)"
  have act: "onActivity t =
           t\<lparr>lastActivity := Some (clock t), cm_lastActivity := Some (clock t),
             idleTimer := Some (nextTimer t), pending := pending t @ [(nextTimer t, d + 100)],
             nextTimer := Suc (nextTimer t)\<rparr>"
    using a by (simp add: onActivity_armed)
  have v: "pending v = [(nextTimer t, d + 100)]" "lastActivity v = Some (clock t)"
    "maxIdleInterval v = Some d" "clock v = clock t + int n" "trace v = trace t"
    "isConnected v = isConnected t" "isFinished v = isFinished t"
    "nextTimer v = Suc (nextTimer t)"
    using a by (simp_all add: v_def act)
  have r: "run ce [Advance n, TimerFires] (onActivity t) = snd (onIdleTimerExpire ce (v\<lparr>pending := []\<rparr>))"
  proof -
    have "run ce [Advance n, TimerFires] (onActivity t) = snd (fireTimer ce v)"
      by (simp add: v_def)
    also have "snd (fireTimer ce v) = snd (onIdleTimerExpire ce (v\<lparr>pending := []\<rparr>))"
      using v(1) by (simp add: fireTimer_def)
    finally show ?thesis .
  qed
  define w where "w = v\<lparr>pending := []\<rparr>"
  have w: "lastActivity w = Some (clock t)" "maxIdleInterval w = Some d"
    "clock w - clock t = int n" "trace w = trace t" "isConnected w = isConnected t"
    "isFinished w = isFinished t" "nextTimer w = Suc (nextTimer t)" "pending w = []"
    using v by (simp_all add: w_def)
  {
    assume dd: "d \<le> int n"
    have e: "onIdleTimerExpire ce w =
            (None, disconnect ce
                     (Some (ErrorInfo (idle_msg (clock w - clock t)) (Some 80003) (Some 408)))
                     (w\<lparr>idleTimer := None\<rparr>))"
      using a dd w by (intro onIdleTimerExpire_dead) simp_all
    have "new_effects t (snd (onIdleTimerExpire ce w)) =
            new_effects (w\<lparr>idleTimer := None\<rparr>) (snd (onIdleTimerExpire ce w))"
      by (simp add: new_effects_def w)
    then show "new_effects t (run ce [Advance n, TimerFires] (onActivity t)) =
            (if isConnected t then [Send disconnectMessage] else [])
            @ (if isFinished t then []
               else [Emit ''disconnected''
                       [AErr (Some (ErrorInfo (idle_msg (int n)) (Some 80003) (Some 408)))],
                     Off])"
      unfolding r w_def [symmetric]
      by (simp add: e disconnect_new_effects or_default_def w)
  }
  {
    assume dd: "int n < d"
    have e: "onIdleTimerExpire ce w =
           (None, w\<lparr>idleTimer := Some (nextTimer w),
                    pending := pending w @ [(nextTimer w, d - (clock w - clock t) + 100)],
                    nextTimer := Suc (nextTimer w)\<rparr>)"
      using a dd w by (intro onIdleTimerExpire_rearm) simp_all
    show "pending (run ce [Advance n, TimerFires] (onActivity t)) =
            [(Suc (nextTimer t), d - int n + 100)]"
      "idleTimer (run ce [Advance n, TimerFires] (onActivity t)) = Some (Suc (nextTimer t))"
      "new_effects t (run ce [Advance n, TimerFires] (onActivity t)) = []"
      unfolding r w_def [symmetric]
      by (simp_all add: e w new_effects_def)
  }
qed

theorem idle_monitor_witness:
  "onActivity (Transport_new 10000 1000) = Transport_new 10000 1000
   \<and> lastActivity (onActivity (t_live\<lparr>clock := 2000\<rparr>)) = Some 2000
   \<and> cm_lastActivity (onActivity (t_live\<lparr>clock := 2000\<rparr>)) = Some 2000
   \<and> pending (onActivity (t_live\<lparr>clock := 2000\<rparr>)) = [(1, 25100)]
   \<and> pending (onActivity (t_live\<lparr>idleTimer := None, pending := []\<rparr>)) = [(2, 25100)]
   \<and> length (pending (run ce0 [OnProtocolMessage (connected_msg 15000), Advance 25200, TimerFires,
                                 OnProtocolMessage (connected_msg 15000)]
                         (Transport_new 10000 1000))) \<le> 1
   \<and> new_effects (t_live\<lparr>pending := [], clock := 26200\<rparr>)
        (snd (onIdleTimerExpire ce0 (t_live\<lparr>pending := [], clock := 26200\<rparr>))) =
       [Send disconnectMessage,
        Emit ''disconnected''
          [AErr (Some (ErrorInfo
             ''No activity seen from realtime in 25200ms; assuming connection has dropped''
             (Some 80003) (Some 408)))],
        Off]
   \<and> pending (snd (onIdleTimerExpire ce0 (t_live\<lparr>pending := [], clock := 6000\<rparr>))) = [(2, 20100)]
   \<and> new_effects t_live (run ce0 [Advance 25200, TimerFires] t_live) =
       [Send disconnectMessage,
        Emit ''disconnected''
          [AErr (Some (ErrorInfo
             ''No activity seen from realtime in 25200ms; assuming connection has dropped''
             (Some 80003) (Some 408)))],
        Off]
   \<and> pending (run ce0 [Advance 5000, TimerFires] t_live) = [(2, 20100)]
   \<and> pending (run ce0 [Advance 5000, TimerFires]
                 (onActivity (t_live\<lparr>idleTimer := None, pending := []\<rparr>))) = [(3, 20100)]
   \<and> new_effects (t_live\<lparr>idleTimer := None, pending := []\<rparr>)
        (run ce0 [Advance 25200, TimerFires]
           (onActivity (t_live\<lparr>idleTimer := None, pending := []\<rparr>))) =
       [Send disconnectMessage,
        Emit ''disconnected''
          [AErr (Some (ErrorInfo
             ''No activity seen from realtime in 25200ms; assuming connection has dropped''
             (Some 80003) (Some 408)))],
        Off]"
  using
    idle_monitor [of "Transport_new 10000 1000"]
    idle_monitor [of "t_live\<lparr>clock := 2000\<rparr>" 25000]
    idle_monitor [of "t_live\<lparr>idleTimer := None, pending := []\<rparr>" 25000 ce0 _ _ _ _ _ _ _ 25200]
    idle_monitor [of "t_live\<lparr>idleTimer := None, pending := []\<rparr>" 25000 ce0 _ _ _ _ _ _ _ 5000]
    idle_monitor [of _ _ ce0 "[OnProtocolMessage (connected_msg 15000), Advance 25200, TimerFires,
                                 OnProtocolMessage (connected_msg 15000)]" 10000 1000]
    idle_monitor [of "t_live\<lparr>pending := [], clock := 26200\<rparr>" _ ce0 _ _ _ 1000 25000]
    idle_monitor [of "t_live\<lparr>pending := [], clock := 6000\<rparr>" _ ce0 _ _ _ 1000 25000]
    idle_monitor [of "t_live\<lparr>clock := 26200\<rparr>" _ ce0 _ _ _ 1000 25000 "(1, 25100)" "[]"]
    idle_monitor [of "t_live\<lparr>clock := 6000\<rparr>" _ ce0 _ _ _ 1000 25000 "(1, 25100)" "[]"]
  by (simp add: t_live_eq idle_msg_25200 transport_defs)














section \<open>Properties of the fallback request executor\<close>

lemma indexOf_ge: "- 1 \<le> indexOf s p"
  by (induction s) (simp_all add: Let_def)

lemma indexOf_sublist: "(indexOf s p = - 1) = (\<not> sublist p s)"
proof (induction s)
  case Nil
  then show ?case by simp
next
  case (Cons c cs)
  have ge: "- 1 \<le> indexOf cs p" by (rule indexOf_ge)
  show ?case
  proof (cases "prefix p (c # cs)")
    case True
    then show ?thesis by (simp add: sublist_Cons_right)
  next
    case False
    with Cons ge show ?thesis
      by (auto simp: sublist_Cons_right Let_def)
  qed
qed

lemma indexOf_found: "(indexOf s p > - 1) = sublist p s"
  using indexOf_ge [of s p] indexOf_sublist [of s p] by auto

lemma ct_examples:
  "sublist ''application/x-msgpack'' ''application/x-msgpack''"
  "\<not> sublist ''application/x-msgpack'' ''application/json''"
  "sublist ''application/json'' ''application/json''"
  "\<not> sublist ''application/x-msgpack'' ''text/plain''"
  "\<not> sublist ''application/json'' ''text/plain''"
  by (simp_all add: indexOf_found [symmetric])

lemma headers_get_names:
  "headers_get h ''Content-Type'' = h ''content-type''"
  "headers_get h ''x-ably-errorcode'' = h ''x-ably-errorcode''"
  by (simp_all add: headers_get_def lower_def)

lemma packed_flag_spec: "packed_flag ct = packed_spec ct"
  by (simp add: packed_flag_def packed_spec_def indexOf_sublist split: option.splits)

lemma onBody_calls:
  "calls (onBody env res b s) = calls s \<or>
   (\<exists>e. calls (onBody env res b s) =
          calls s @ [Call e (Some b) (Some (res_headers res))
                       (Some (packed_flag (headers_get (res_headers res) ''Content-Type'')))
                       (Some (status res))])"
  by (simp add: onBody_def Let_def callback_def split: sum.splits)

lemma onBody_ok:
  "ok res \<Longrightarrow> calls (onBody env res b s) =
          calls s @ [Call None (Some b) (Some (res_headers res))
                       (Some (packed_flag (headers_get (res_headers res) ''Content-Type'')))
                       (Some (status res))]"
  by (simp add: onBody_def Let_def callback_def)


lemmas fetch_defs =
  fetchRequest_def callback_def controller_abort_def isAblyError_def getAblyError_def
  choose_decoder_def packed_flag_def generic_error_def onBody_def ok_def headers_has_def
  headers_get_names env0_def call0_def hdrs_def Let_def

lemma indexOf_examples:
  "indexOf ''application/json'' ''application/x-msgpack'' = - 1"
  "indexOf ''application/json'' ''application/json'' = 0"
  "indexOf ''application/x-msgpack'' ''application/x-msgpack'' = 0"
  "indexOf ''text/html'' ''application/x-msgpack'' = - 1"
  "indexOf ''text/html'' ''application/json'' = - 1"
  by simp_all


text \<open>
  Claim C9. The packed flag the callback receives is true exactly when a content type was
  declared and it is not the binary-packed type: an absent content type gives false, a
  content type naming \<open>application/x-msgpack\<close> gives false (and the body is read as
  bytes), any other declared content type, structured text or opaque text, gives true.
\<close>
theorem packed_flag_declared_not_msgpack:
  "packed_flag contentType = packed_spec contentType
 \<and> (contentType = None \<longrightarrow> \<not> packed_flag contentType)
 \<and> (contentType = Some ct \<and> sublist ''application/x-msgpack'' ct \<longrightarrow>
      \<not> packed_flag contentType \<and> choose_decoder contentType = ArrayBufferDecoder)
 \<and> (contentType = Some ct \<and> ct \<noteq> [] \<and> \<not> sublist ''application/x-msgpack'' ct \<longrightarrow>
      packed_flag contentType
    \<and> choose_decoder contentType =
        (if sublist ''application/json'' ct then JsonDecoder else TextDecoder))
 \<and> (phase s = Decoding res d \<and> decodes d b \<longrightarrow>
      calls (step env (BodyDecoded b) s) = calls s
    \<or> (\<exists>e. calls (step env (BodyDecoded b) s) =
           calls s @ [Call e (Some b) (Some (res_headers res))
                        (Some (packed_spec (res_headers res ''content-type'')))
                        (Some (status res))]))
 \<and> (phase s = Decoding res d \<and> decodes d b \<and> ok res \<longrightarrow>
      calls (step env (BodyDecoded b) s) =
        calls s @ [Call None (Some b) (Some (res_headers res))
                     (Some (packed_spec (res_headers res ''content-type'')))
                     (Some (status res))])"
proof (intro conjI impI)
  show "packed_flag contentType = packed_spec contentType"
    by (rule packed_flag_spec)
next
  assume "contentType = None"
  then show "\<not> packed_flag contentType" by (simp add: packed_flag_def)
next
  assume a: "contentType = Some ct \<and> sublist ''application/x-msgpack'' ct"
  then have ne: "ct \<noteq> []" by auto
  from a show "\<not> packed_flag contentType"
    by (simp add: packed_flag_def indexOf_sublist)
  from a ne show "choose_decoder contentType = ArrayBufferDecoder"
    by (simp add: choose_decoder_def indexOf_found)
next
  assume a: "contentType = Some ct \<and> ct \<noteq> [] \<and> \<not> sublist ''application/x-msgpack'' ct"
  then show "packed_flag contentType"
    by (simp add: packed_flag_def indexOf_sublist)
  from a show "choose_decoder contentType =
        (if sublist ''application/json'' ct then JsonDecoder else TextDecoder)"
    by (simp add: choose_decoder_def indexOf_found)
next
  assume a: "phase s = Decoding res d \<and> decodes d b"
  then have "step env (BodyDecoded b) s = onBody env res b s" by simp
  then show "calls (step env (BodyDecoded b) s) = calls s
    \<or> (\<exists>e. calls (step env (BodyDecoded b) s) =
           calls s @ [Call e (Some b) (Some (res_headers res))
                        (Some (packed_spec (res_headers res ''content-type'')))
                        (Some (status res))])"
    using onBody_calls [of env res b s]
    by (simp add: packed_flag_spec headers_get_names)
next
  assume a: "phase s = Decoding res d \<and> decodes d b \<and> ok res"
  then have "step env (BodyDecoded b) s = onBody env res b s" by simp
  then show "calls (step env (BodyDecoded b) s) =
        calls s @ [Call None (Some b) (Some (res_headers res))
                     (Some (packed_spec (res_headers res ''content-type'')))
                     (Some (status res))]"
    using a onBody_ok [of res env b s]
    by (simp add: packed_flag_spec headers_get_names)
qed

theorem packed_flag_declared_not_msgpack_witness:
  "\<not> packed_flag None
   \<and> \<not> packed_flag (Some ''application/x-msgpack'')
   \<and> choose_decoder (Some ''application/x-msgpack'') = ArrayBufferDecoder
   \<and> packed_flag (Some ''application/json'')
   \<and> choose_decoder (Some ''application/json'') = JsonDecoder
   \<and> packed_flag (Some ''text/plain'')
   \<and> choose_decoder (Some ''text/plain'') = TextDecoder
   \<and> phase (step env0 (ResponseArrives res_ok_json) call0) = Decoding res_ok_json JsonDecoder
   \<and> map cb_packed (calls (steps env0 [ResponseArrives res_ok_json, BodyDecoded (Json (JObj []))] call0))
       = [Some True]"
proof -
  have p: "phase (step env0 (ResponseArrives res_ok_json) call0) = Decoding res_ok_json JsonDecoder"
    by (simp add: fetch_defs res_ok_json_def indexOf_examples)
  have d: "decodes JsonDecoder (Json (JObj []))" "ok res_ok_json"
    by (simp_all add: ok_def res_ok_json_def)
  have c: "calls (step env0 (ResponseArrives res_ok_json) call0) = []"
    by (simp add: fetch_defs)
  have h: "res_headers res_ok_json ''content-type'' = Some ''application/json''"
    by (simp add: res_ok_json_def hdrs_def)
  show ?thesis
    using p d c h ct_examples
      packed_flag_declared_not_msgpack [of None]
      packed_flag_declared_not_msgpack [of "Some ''application/x-msgpack''" "''application/x-msgpack''"]
      packed_flag_declared_not_msgpack [of "Some ''application/json''" "''application/json''"]
      packed_flag_declared_not_msgpack [of "Some ''text/plain''" "''text/plain''"]
      packed_flag_declared_not_msgpack [of "Some ''application/json''" "''application/json''"
         "step env0 (ResponseArrives res_ok_json) call0" res_ok_json JsonDecoder "Json (JObj [])" env0]
    by (simp add: packed_spec_def)
qed




lemma signal_steps: "signal (init (steps env evs s)) = signal (init s)"
proof (induction evs arbitrary: s)
  case Nil
  then show ?case by simp
next
  case (Cons e es)
  have "signal (init (step env e s)) = signal (init s)"
    by (cases e)
       (auto simp: callback_def controller_abort_def onBody_def Let_def
          split: phase.splits sum.splits)
  with Cons show ?case by simp
qed

lemma no_abort_step:
  assumes "\<not> signal (init s)"
    and "list_all (\<lambda>c. cb_err c \<noteq> Some (Rejected AbortError)) (calls s)"
  shows "list_all (\<lambda>c. cb_err c \<noteq> Some (Rejected AbortError)) (calls (step env e s))"
  using assms
  by (cases e)
     (auto simp: callback_def controller_abort_def onBody_def Let_def
        split: phase.splits sum.splits option.splits)

lemma no_abort_steps:
  assumes "\<not> signal (init s)"
    and "list_all (\<lambda>c. cb_err c \<noteq> Some (Rejected AbortError)) (calls s)"
  shows "list_all (\<lambda>c. cb_err c \<noteq> Some (Rejected AbortError)) (calls (steps env evs s))"
  using assms
proof (induction evs arbitrary: s)
  case Nil
  then show ?case by simp
next
  case (Cons e es)
  have "\<not> signal (init (step env e s))"
    using signal_steps [of env "[e]" s] Cons.prems(1) by simp
  moreover have "list_all (\<lambda>c. cb_err c \<noteq> Some (Rejected AbortError)) (calls (step env e s))"
    using Cons.prems by (rule no_abort_step)
  ultimately show ?case using Cons.IH by simp
qed

text \<open>
  Claim C7, evaluated on the code. When the timeout fires before a response, the handler
  calls \<open>controller.abort()\<close> once and gives the callback the \<open>Request timed out\<close> error
  with status 408. The request was given no signal, so it stays in flight: no abort
  rejection can follow, in any run. A response's headers arriving first disarm the
  timeout, which then never fires.
\<close>
theorem timeout_does_not_cancel_request:
  "calls (step env TimeoutFires (fetchRequest env method rest uri headers params reqBody)) =
     [Call (Some (ErrInfo (ErrorInfo ''Request timed out'' None (Some 408)))) None None None None]
 \<and> abortCalls (step env TimeoutFires (fetchRequest env method rest uri headers params reqBody)) = 1
 \<and> \<not> signal (init (fetchRequest env method rest uri headers params reqBody))
 \<and> phase (step env TimeoutFires (fetchRequest env method rest uri headers params reqBody)) = InFlight
 \<and> step env (FetchRejects AbortError)
      (step env TimeoutFires (fetchRequest env method rest uri headers params reqBody))
     = step env TimeoutFires (fetchRequest env method rest uri headers params reqBody)
 \<and> list_all (\<lambda>c. cb_err c \<noteq> Some (Rejected AbortError))
     (calls (steps env evs (fetchRequest env method rest uri headers params reqBody)))
 \<and> \<not> timeoutArmed (step env TimeoutFires (fetchRequest env method rest uri headers params reqBody))
 \<and> \<not> timeoutArmed (step env (ResponseArrives res) (fetchRequest env method rest uri headers params reqBody))
 \<and> step env TimeoutFires (step env (ResponseArrives res) (fetchRequest env method rest uri headers params reqBody))
     = step env (ResponseArrives res) (fetchRequest env method rest uri headers params reqBody)"
proof -
  have a: "\<not> signal (init (fetchRequest env method rest uri headers params reqBody))"
    "calls (fetchRequest env method rest uri headers params reqBody) = []"
    by (simp_all add: fetchRequest_def Let_def)
  have b: "list_all (\<lambda>c. cb_err c \<noteq> Some (Rejected AbortError))
     (calls (steps env evs (fetchRequest env method rest uri headers params reqBody)))"
    by (rule no_abort_steps) (simp_all add: a)
  show ?thesis
    using b by (simp add: fetchRequest_def callback_def controller_abort_def Let_def)
qed

theorem timeout_does_not_cancel_request_witness:
  "phase (step env0 TimeoutFires call0) = InFlight
   \<and> abortCalls (step env0 TimeoutFires call0) = 1
   \<and> \<not> signal (init call0)
   \<and> map cb_err (calls (steps env0 [TimeoutFires, FetchRejects AbortError, ResponseArrives res_ok_json,
                                      BodyDecoded (Json (JObj []))] call0)) =
       [Some (ErrInfo (ErrorInfo ''Request timed out'' None (Some 408))), None]"
  using timeout_does_not_cancel_request [of env0 None None "''https://rest.ably.io/time''" None None None]
  by (simp add: fetch_defs res_ok_json_def indexOf_examples)

text \<open>
  Claim C10, evaluated on the code. After the timeout has fired, the callback has run once
  with the 408 error and \<open>controller.abort()\<close> has run once, but the request was given no
  signal: it is still in flight, and a rejection with an abort error is not among the
  things that can happen to it, so no second invocation with an abort error follows.
\<close>
theorem abort_causes_no_rejection:
  "calls (steps env [TimeoutFires, FetchRejects AbortError]
            (fetchRequest env method rest uri headers params reqBody)) =
     [Call (Some (ErrInfo (ErrorInfo ''Request timed out'' None (Some 408)))) None None None None]
 \<and> phase (steps env [TimeoutFires, FetchRejects AbortError]
            (fetchRequest env method rest uri headers params reqBody)) = InFlight
 \<and> abortCalls (steps env [TimeoutFires, FetchRejects AbortError]
                 (fetchRequest env method rest uri headers params reqBody)) = 1
 \<and> \<not> signal (init (fetchRequest env method rest uri headers params reqBody))
 \<and> steps env [TimeoutFires, FetchRejects AbortError]
       (fetchRequest env method rest uri headers params reqBody) =
     step env TimeoutFires (fetchRequest env method rest uri headers params reqBody)"
proof -
  define s0 where "s0 = fetchRequest env method rest uri headers params reqBody"
  define s1 where "s1 = step env TimeoutFires s0"
  have start: "timeoutArmed s0" "phase s0 = InFlight" "calls s0 = []" "abortCalls s0 = 0"
    "\<not> signal (init s0)"
    by (simp_all add: s0_def fetchRequest_def Let_def)
  have fired: "phase s1 = InFlight" "abortCalls s1 = 1" "\<not> signal (init s1)"
    "calls s1 =
       [Call (Some (ErrInfo (ErrorInfo ''Request timed out'' None (Some 408)))) None None None None]"
    using start by (simp_all add: s1_def callback_def controller_abort_def)
  have stay: "step env (FetchRejects AbortError) s1 = s1"
    using fired(3) by simp
  have run2: "steps env [TimeoutFires, FetchRejects AbortError] s0 = s1"
    using stay by (simp add: s1_def)
  show ?thesis
    unfolding s0_def [symmetric] run2
    using fired start(5) by (simp add: s1_def)
qed

theorem abort_causes_no_rejection_witness:
  "map cb_err (calls (steps env0 [TimeoutFires, FetchRejects AbortError] call0)) =
     [Some (ErrInfo (ErrorInfo ''Request timed out'' None (Some 408)))]
   \<and> phase (steps env0 [TimeoutFires, FetchRejects AbortError] call0) = InFlight
   \<and> \<not> signal (init call0)"
  using abort_causes_no_rejection [of env0 None None "''https://rest.ably.io/time''" None None None]
  by (simp add: fetch_defs)

end
